theory Spec2Isabelle
  imports Complex_Main "HOL-Library.Word" "HOL-Library.Signed_Division" "HOL-Library.Log_Nat"
begin

section \<open>Audio formats and devices\<close>

text \<open>
  The audio client of \<^verbatim>\<open>libraries/audio-client/src/AudioClient.cpp\<close>. The Qt classes it
  uses are modelled by the members the code reads: a \<^verbatim>\<open>QAudioFormat\<close> is a value
  compared field by field, a \<^verbatim>\<open>QAudioDeviceInfo\<close> is the three queries the format
  negotiation makes of it.
\<close>

type_synonym int16 = "16 word"
type_synonym quint16 = "16 word"
type_synonym quint64 = "64 word"
type_synonym byte = "8 word"

datatype SampleType = Unknown | SignedInt | UnSignedInt | Float

datatype Endian = BigEndian | LittleEndian

record QAudioFormat =
  sampleRate :: int
  channelCount :: int
  sampleSize :: int
  codec :: string
  byteOrder :: Endian
  sampleType :: SampleType

record QAudioDeviceInfo =
  isNull :: bool
  deviceName :: string
  isFormatSupported :: "QAudioFormat \<Rightarrow> bool"
  supportedSampleRates :: "int list"
  nearestFormat :: "QAudioFormat \<Rightarrow> QAudioFormat"

text \<open>
  What the code takes from headers and libraries outside this file: the constants of
  \<^verbatim>\<open>AudioConstants\<close>, \<^verbatim>\<open>AudioNoiseGate\<close> and \<^verbatim>\<open>AudioClient.h\<close>, the platform switch
  \<^verbatim>\<open>Q_OS_ANDROID\<close>, whether \<^verbatim>\<open>soxr_create\<close> accepts a pair of rates, whether a
  \<^verbatim>\<open>QAudioInput\<close> starts, the default devices, and the defaults of the persisted
  settings.
  \<open>CLIPPING_LEVEL\<close> stands for the product
  \<^verbatim>\<open>AudioConstants::MAX_SAMPLE_VALUE * AudioNoiseGate::CLIPPING_THRESHOLD\<close>.
\<close>

record Env =
  SAMPLE_RATE :: int
  NETWORK_FRAME_SAMPLES_PER_CHANNEL :: int
  NETWORK_FRAME_SAMPLES_STEREO :: int
  CLIPPING_LEVEL :: rat
  MIN_AUDIO_OUTPUT_BUFFER_SIZE_FRAMES :: int
  MAX_AUDIO_OUTPUT_BUFFER_SIZE_FRAMES :: int
  Q_OS_ANDROID :: bool
  soxrCreateOk :: "int \<Rightarrow> int \<Rightarrow> bool"
  audioInputStarts :: bool
  defaultInputDevice :: QAudioDeviceInfo
  defaultOutputDevice :: QAudioDeviceInfo
  DEFAULT_MAX_FRAMES_OVER_DESIRED :: int
  DEFAULT_AUDIO_OUTPUT_STARVE_DETECTION_ENABLED :: bool
  DEFAULT_AUDIO_OUTPUT_STARVE_DETECTION_PERIOD :: int
  DEFAULT_AUDIO_OUTPUT_STARVE_DETECTION_THRESHOLD :: int

section \<open>Format negotiation\<close>

text \<open>
  \<^verbatim>\<open>adjustedFormatForAudioDevice\<close>: the result is the returned flag and the value left in
  the out-parameter \<^verbatim>\<open>adjustedAudioFormat\<close>, which every path assigns. The function has
  no \<^verbatim>\<open>throw\<close>: the flag is its only failure signal.
\<close>

definition preferredSampleRate :: "Env \<Rightarrow> QAudioDeviceInfo \<Rightarrow> QAudioFormat \<Rightarrow> QAudioFormat" where
  "preferredSampleRate env audioDevice adjustedAudioFormat =
     (if Q_OS_ANDROID env then adjustedAudioFormat\<lparr>sampleRate := 44100\<rparr>
      else if SAMPLE_RATE env * 2 \<in> set (supportedSampleRates audioDevice)
        then adjustedAudioFormat\<lparr>sampleRate := SAMPLE_RATE env * 2\<rparr>
      else if 44100 div 2 \<in> set (supportedSampleRates audioDevice)
        then adjustedAudioFormat\<lparr>sampleRate := 44100 div 2\<rparr>
      else if 44100 \<in> set (supportedSampleRates audioDevice)
        then adjustedAudioFormat\<lparr>sampleRate := 44100\<rparr>
      else adjustedAudioFormat)"

definition adjustedFormatForAudioDevice ::
  "Env \<Rightarrow> QAudioDeviceInfo \<Rightarrow> QAudioFormat \<Rightarrow> bool \<times> QAudioFormat" where
  "adjustedFormatForAudioDevice env audioDevice desiredAudioFormat =
     (if \<not> isFormatSupported audioDevice desiredAudioFormat then
        (if channelCount desiredAudioFormat = 1
            \<and> isFormatSupported audioDevice (desiredAudioFormat\<lparr>channelCount := 2\<rparr>)
         then (True, desiredAudioFormat\<lparr>channelCount := 2\<rparr>)
         else
           (let adjustedAudioFormat = preferredSampleRate env audioDevice desiredAudioFormat
            in if adjustedAudioFormat \<noteq> desiredAudioFormat
               then (True, nearestFormat audioDevice adjustedAudioFormat)
               else (False, adjustedAudioFormat)))
      else (True, desiredAudioFormat))"

section \<open>Channel conversion\<close>

text \<open>
  \<^verbatim>\<open>sampleChannelConversion\<close>. The operands of \<^verbatim>\<open>/\<close> and \<^verbatim>\<open>+\<close> are promoted to
  \<^verbatim>\<open>int\<close>, C++ division truncates toward zero (\<open>sdiv\<close>), and the sum is narrowed to
  \<^verbatim>\<open>int16_t\<close> by the assignment. Buffers are lists; an index outside a buffer is
  undefined behaviour in the source and \<open>None\<close> here. The loop counters are 32-bit
  unsigned; buffers are shorter than \<open>2 ^ 32\<close>, so an index leaves its buffer before a
  counter can wrap.
\<close>

definition stereoFrameToMono :: "int16 \<Rightarrow> int16 \<Rightarrow> int16" where
  "stereoFrameToMono a b = word_of_int ((sint a sdiv 2) + (sint b sdiv 2))"

function stereoToMonoLoop :: "nat \<Rightarrow> nat \<Rightarrow> int16 list \<Rightarrow> int16 list \<Rightarrow> int16 list option" where
  "stereoToMonoLoop i numSourceSamples sourceSamples destinationSamples =
     (if i < numSourceSamples then
        (if i + 1 < length sourceSamples \<and> i div 2 < length destinationSamples then
           stereoToMonoLoop (i + 2) numSourceSamples sourceSamples
             (destinationSamples[i div 2 :=
                stereoFrameToMono (sourceSamples ! i) (sourceSamples ! (i + 1))])
         else None)
      else Some destinationSamples)"
  by pat_completeness auto
termination
  by (relation "measure (\<lambda>(i, n, src, dst). n - i)") auto

declare stereoToMonoLoop.simps [simp del]

function monoToStereoLoop :: "nat \<Rightarrow> nat \<Rightarrow> int16 list \<Rightarrow> int16 list \<Rightarrow> int16 list option" where
  "monoToStereoLoop i numSourceSamples sourceSamples destinationSamples =
     (if i < numSourceSamples then
        (if i < length sourceSamples \<and> i * 2 + 1 < length destinationSamples then
           monoToStereoLoop (i + 1) numSourceSamples sourceSamples
             (destinationSamples[i * 2 + 1 := sourceSamples ! i, i * 2 := sourceSamples ! i])
         else None)
      else Some destinationSamples)"
  by pat_completeness auto
termination
  by (relation "measure (\<lambda>(i, n, src, dst). n - i)") auto

declare monoToStereoLoop.simps [simp del]

definition sampleChannelConversion ::
  "int16 list \<Rightarrow> int16 list \<Rightarrow> nat \<Rightarrow> QAudioFormat \<Rightarrow> QAudioFormat \<Rightarrow> (bool \<times> int16 list) option" where
  "sampleChannelConversion sourceSamples destinationSamples numSourceSamples
       sourceAudioFormat destinationAudioFormat =
     (if channelCount sourceAudioFormat = 2 \<and> channelCount destinationAudioFormat = 1 then
        map_option (Pair True)
          (stereoToMonoLoop 0 numSourceSamples sourceSamples destinationSamples)
      else if channelCount sourceAudioFormat = 1 \<and> channelCount destinationAudioFormat = 2 then
        map_option (Pair True)
          (monoToStereoLoop 0 numSourceSamples sourceSamples destinationSamples)
      else Some (False, destinationSamples))"

section \<open>Single-precision arithmetic\<close>

text \<open>
  The source computes sample-count ratios, the clip timer and the loudness in \<^verbatim>\<open>float\<close>.
  A finite \<^verbatim>\<open>float\<close> is a rational, and every operation of the source is the exact
  operation followed by rounding to IEEE 754 binary32: the nearest value with 24
  significant bits, ties to the even significand, on the grid of \<open>2 ^ - 149\<close> below
  \<open>2 ^ - 126\<close>. \<open>float32\<close> is that rounding (each operation rounded on its own, as
  with SSE arithmetic). Infinities and NaN are not represented: they arise only from a
  division by zero or from magnitudes of \<open>2 ^ 128\<close> and more, which 32-bit integer
  operands and non-zero divisors exclude. The conversion of a \<^verbatim>\<open>float\<close> to \<^verbatim>\<open>int\<close>
  truncates toward zero.
\<close>

definition pow2 :: "int \<Rightarrow> rat" where
  "pow2 e = (if 0 \<le> e then 2 ^ nat e else 1 / 2 ^ nat (- e))"

text \<open>
  For \<open>x > 0\<close>, \<open>floorLog2 x\<close> is the exponent \<open>e\<close> with \<open>2 ^ e \<le> x < 2 ^ (e + 1)\<close>,
  found from the bit lengths of numerator and denominator.
\<close>

definition floorLog2 :: "rat \<Rightarrow> int" where
  "floorLog2 x =
     (let (p, q) = quotient_of x;
          e = bitlen p - bitlen q
      in if pow2 e \<le> x then e else e - 1)"

definition roundTiesToEven :: "rat \<Rightarrow> int" where
  "roundTiesToEven y =
     (let f = \<lfloor>y\<rfloor>; r = y - rat_of_int f
      in if r < 1 / 2 then f
         else if 1 / 2 < r then f + 1
         else if even f then f else f + 1)"

definition float32 :: "rat \<Rightarrow> rat" where
  "float32 x =
     (if x = 0 then 0
      else
        (let e = max (floorLog2 \<bar>x\<bar>) (- 126);
             ulp = pow2 (e - 23)
         in rat_of_int (roundTiesToEven (x / ulp)) * ulp))"

definition truncateToInt :: "rat \<Rightarrow> int" where
  "truncateToInt y = (if 0 \<le> y then \<lfloor>y\<rfloor> else \<lceil>y\<rceil>)"

section \<open>The audio client\<close>

text \<open>
  The members of \<^verbatim>\<open>AudioClient\<close> that the functions below read or write, under their
  names without the leading underscore. A pointer member is \<open>True\<close> when it is not
  \<^verbatim>\<open>NULL\<close>; a resampler context is \<open>None\<close> when it is \<^verbatim>\<open>NULL\<close> and otherwise
  records the two rates given to \<^verbatim>\<open>soxr_create\<close>. The two \<^verbatim>\<open>float\<close> members \<open>lastInputLoudness\<close> and
  \<open>timeSinceLastClip\<close> hold the rational value of a finite \<^verbatim>\<open>float\<close>; the functions that
  write them round every operation with \<open>float32\<close>.
  \<open>unfulfilledReads\<close> is the member of the nested \<^verbatim>\<open>AudioOutputIODevice\<close>.
  The \<^verbatim>\<open>int\<close> members are unbounded integers: signed overflow is undefined in the
  source, and the counters stay far below \<open>2 ^ 31\<close>.
\<close>

record soxr_t =
  inputRate :: int
  outputRate :: int

record AudioClient =
  audioInput :: bool
  inputDevice :: bool
  desiredInputFormat :: QAudioFormat
  inputFormat :: QAudioFormat
  audioOutput :: bool
  desiredOutputFormat :: QAudioFormat
  outputFormat :: QAudioFormat
  outputFrameSize :: int
  loopbackAudioOutput :: bool
  loopbackOutputDevice :: bool
  isStereoInput :: bool
  outputStarveDetectionStartTimeMsec :: quint64
  outputStarveDetectionCount :: int
  outputBufferSizeFrames :: int
  outputStarveDetectionEnabled :: bool
  outputStarveDetectionPeriodMsec :: int
  outputStarveDetectionThreshold :: int
  lastInputLoudness :: rat
  timeSinceLastClip :: rat
  muted :: bool
  shouldEchoLocally :: bool
  shouldEchoToServer :: bool
  isNoiseGateEnabled :: bool
  audioSourceInjectEnabled :: bool
  reverb :: bool
  inputToNetworkResampler :: "soxr_t option"
  networkToOutputResampler :: "soxr_t option"
  loopbackResampler :: "soxr_t option"
  noiseSourceEnabled :: bool
  toneSourceEnabled :: bool
  outgoingAvatarAudioSequenceNumber :: quint16
  unfulfilledReads :: int

text \<open>The value of \<^verbatim>\<open>QAudioFormat()\<close>, and the constructor \<^verbatim>\<open>AudioClient::AudioClient\<close>.\<close>

definition QAudioFormat_default :: QAudioFormat where
  "QAudioFormat_default =
     \<lparr>sampleRate = - 1, channelCount = - 1, sampleSize = - 1, codec = [],
      byteOrder = LittleEndian, sampleType = Unknown\<rparr>"

definition AudioClient_new :: "Env \<Rightarrow> AudioClient" where
  "AudioClient_new env =
     \<lparr>audioInput = False,
      inputDevice = False,
      desiredInputFormat = QAudioFormat_default,
      inputFormat = QAudioFormat_default,
      audioOutput = False,
      desiredOutputFormat = QAudioFormat_default,
      outputFormat = QAudioFormat_default,
      outputFrameSize = 0,
      loopbackAudioOutput = False,
      loopbackOutputDevice = False,
      isStereoInput = False,
      outputStarveDetectionStartTimeMsec = 0,
      outputStarveDetectionCount = 0,
      outputBufferSizeFrames = DEFAULT_MAX_FRAMES_OVER_DESIRED env,
      outputStarveDetectionEnabled =
        (if Q_OS_ANDROID env then False else DEFAULT_AUDIO_OUTPUT_STARVE_DETECTION_ENABLED env),
      outputStarveDetectionPeriodMsec = DEFAULT_AUDIO_OUTPUT_STARVE_DETECTION_PERIOD env,
      outputStarveDetectionThreshold = DEFAULT_AUDIO_OUTPUT_STARVE_DETECTION_THRESHOLD env,
      lastInputLoudness = 0,
      timeSinceLastClip = - 1,
      muted = False,
      shouldEchoLocally = False,
      shouldEchoToServer = False,
      isNoiseGateEnabled = True,
      audioSourceInjectEnabled = False,
      reverb = False,
      inputToNetworkResampler = None,
      networkToOutputResampler = None,
      loopbackResampler = None,
      noiseSourceEnabled = False,
      toneSourceEnabled = True,
      outgoingAvatarAudioSequenceNumber = 0,
      unfulfilledReads = 0\<rparr>"

definition audioMixerKilled :: "AudioClient \<Rightarrow> AudioClient" where
  "audioMixerKilled s = s\<lparr>outgoingAvatarAudioSequenceNumber := 0\<rparr>"

definition toggleMute :: "AudioClient \<Rightarrow> AudioClient" where
  "toggleMute s = s\<lparr>muted := \<not> muted s\<rparr>"

definition toggleAudioSourceInject :: "AudioClient \<Rightarrow> AudioClient" where
  "toggleAudioSourceInject s = s\<lparr>audioSourceInjectEnabled := \<not> audioSourceInjectEnabled s\<rparr>"

definition selectAudioSourcePinkNoise :: "AudioClient \<Rightarrow> AudioClient" where
  "selectAudioSourcePinkNoise s = s\<lparr>noiseSourceEnabled := True, toneSourceEnabled := False\<rparr>"

definition selectAudioSourceSine440 :: "AudioClient \<Rightarrow> AudioClient" where
  "selectAudioSourceSine440 s = s\<lparr>toneSourceEnabled := True, noiseSourceEnabled := False\<rparr>"

section \<open>Switching devices\<close>

text \<open>
  \<^verbatim>\<open>soxrResamplerFromInputFormatToOutputFormat\<close> returns \<^verbatim>\<open>NULL\<close> when
  \<^verbatim>\<open>soxr_create\<close> reports an error.
\<close>

definition soxrResamplerFromInputFormatToOutputFormat ::
  "Env \<Rightarrow> QAudioFormat \<Rightarrow> QAudioFormat \<Rightarrow> soxr_t option" where
  "soxrResamplerFromInputFormatToOutputFormat env sourceAudioFormat destinationAudioFormat =
     (if soxrCreateOk env (sampleRate sourceAudioFormat) (sampleRate destinationAudioFormat)
      then Some \<lparr>inputRate = sampleRate sourceAudioFormat,
                  outputRate = sampleRate destinationAudioFormat\<rparr>
      else None)"

text \<open>
  \<^verbatim>\<open>AudioClient::switchInputToAudioDevice(const QAudioDeviceInfo&)\<close>. The device name,
  the callback byte count and the resizing of the ring buffer are left out.
\<close>

definition switchInputToAudioDevice ::
  "Env \<Rightarrow> QAudioDeviceInfo \<Rightarrow> AudioClient \<Rightarrow> bool \<times> AudioClient" where
  "switchInputToAudioDevice env inputDeviceInfo s0 =
     (let s1 = (if audioInput s0 then s0\<lparr>inputDevice := False, audioInput := False\<rparr> else s0);
          s2 = (if inputToNetworkResampler s1 \<noteq> None
                then s1\<lparr>inputToNetworkResampler := None\<rparr> else s1)
      in if \<not> isNull inputDeviceInfo then
           (let (ok, adjusted) =
                  adjustedFormatForAudioDevice env inputDeviceInfo (desiredInputFormat s2);
                s3 = s2\<lparr>inputFormat := adjusted\<rparr>
            in if ok then
                 (let needed = (inputFormat s3 \<noteq> desiredInputFormat s3
                        \<and> sampleRate (inputFormat s3) \<noteq> sampleRate (desiredInputFormat s3));
                      s4 = (if needed
                            then s3\<lparr>inputToNetworkResampler :=
                                   soxrResamplerFromInputFormatToOutputFormat env
                                     (inputFormat s3) (desiredInputFormat s3)\<rparr>
                            else s3)
                  in if needed \<and> inputToNetworkResampler s4 = None then (False, s4)
                     else if \<not> isStereoInput s4 \<or> channelCount (inputFormat s4) = 2 then
                       (let s5 = s4\<lparr>audioInput := True, inputDevice := audioInputStarts env\<rparr>
                        in (inputDevice s5, s5))
                     else (False, s4))
               else (False, s3))
         else (False, s2))"

text \<open>
  \<^verbatim>\<open>AudioClient::outputFormatChanged\<close>, with C++ integer division (by a desired rate
  that \<^verbatim>\<open>start()\<close> has set).
\<close>

definition outputFormatChanged :: "Env \<Rightarrow> AudioClient \<Rightarrow> AudioClient" where
  "outputFormatChanged env s =
     (let outputFormatChannelCountTimesSampleRate =
            channelCount (outputFormat s) * sampleRate (outputFormat s)
      in s\<lparr>outputFrameSize :=
             (NETWORK_FRAME_SAMPLES_PER_CHANNEL env * outputFormatChannelCountTimesSampleRate)
               sdiv sampleRate (desiredOutputFormat s)\<rparr>)"

text \<open>\<^verbatim>\<open>AudioClient::switchOutputToAudioDevice(const QAudioDeviceInfo&)\<close>.\<close>

definition switchOutputToAudioDevice ::
  "Env \<Rightarrow> QAudioDeviceInfo \<Rightarrow> AudioClient \<Rightarrow> bool \<times> AudioClient" where
  "switchOutputToAudioDevice env outputDeviceInfo s0 =
     (let s1 = (if audioOutput s0
                then s0\<lparr>audioOutput := False, loopbackOutputDevice := False,
                        loopbackAudioOutput := False\<rparr>
                else s0);
          s2 = (if networkToOutputResampler s1 \<noteq> None
                then s1\<lparr>networkToOutputResampler := None\<rparr> else s1);
          s3 = (if loopbackResampler s2 \<noteq> None
                then s2\<lparr>loopbackResampler := None\<rparr> else s2)
      in if \<not> isNull outputDeviceInfo then
           (let (ok, adjusted) =
                  adjustedFormatForAudioDevice env outputDeviceInfo (desiredOutputFormat s3);
                s4 = s3\<lparr>outputFormat := adjusted\<rparr>
            in if ok then
                 (let needed = (desiredOutputFormat s4 \<noteq> outputFormat s4
                        \<and> sampleRate (desiredOutputFormat s4) \<noteq> sampleRate (outputFormat s4));
                      s5 = (if needed
                            then s4\<lparr>networkToOutputResampler :=
                                   soxrResamplerFromInputFormatToOutputFormat env
                                     (desiredOutputFormat s4) (outputFormat s4)\<rparr>
                            else s4)
                  in if needed \<and> networkToOutputResampler s5 = None then (False, s5)
                     else (True, (outputFormatChanged env s5)
                                   \<lparr>audioOutput := True, loopbackAudioOutput := True\<rparr>))
               else (False, s4))
         else (False, s3))"

text \<open>
  \<^verbatim>\<open>AudioClient::start\<close> and \<^verbatim>\<open>AudioClient::stop\<close>, as far as they touch the members
  above; \<open>QAudioDeviceInfo_null\<close> is the value of \<^verbatim>\<open>QAudioDeviceInfo()\<close>.
\<close>

definition QAudioDeviceInfo_null :: QAudioDeviceInfo where
  "QAudioDeviceInfo_null =
     \<lparr>isNull = True, deviceName = [], isFormatSupported = (\<lambda>f. False),
      supportedSampleRates = [], nearestFormat = (\<lambda>f. QAudioFormat_default)\<rparr>"

definition start :: "Env \<Rightarrow> AudioClient \<Rightarrow> AudioClient" where
  "start env s0 =
     (let desiredInput =
            \<lparr>sampleRate = SAMPLE_RATE env, channelCount = 1, sampleSize = 16,
             codec = ''audio/pcm'', byteOrder = LittleEndian, sampleType = SignedInt\<rparr>;
          s1 = s0\<lparr>desiredInputFormat := desiredInput,
                  desiredOutputFormat := desiredInput\<lparr>channelCount := 2\<rparr>\<rparr>;
          s2 = snd (switchInputToAudioDevice env (defaultInputDevice env) s1)
      in snd (switchOutputToAudioDevice env (defaultOutputDevice env) s2))"

definition stop :: "Env \<Rightarrow> AudioClient \<Rightarrow> AudioClient" where
  "stop env s0 =
     (let s1 = snd (switchInputToAudioDevice env QAudioDeviceInfo_null s0);
          s2 = snd (switchOutputToAudioDevice env QAudioDeviceInfo_null s1)
      in if loopbackResampler s2 \<noteq> None then s2\<lparr>loopbackResampler := None\<rparr> else s2)"

text \<open>
  \<^verbatim>\<open>AudioClient::setIsStereoInput\<close>; \<open>namedInputDevice\<close> is the device that
  \<^verbatim>\<open>getNamedAudioDeviceForMode\<close> finds for the stored input device name.
\<close>

definition setIsStereoInput ::
  "Env \<Rightarrow> QAudioDeviceInfo \<Rightarrow> bool \<Rightarrow> AudioClient \<Rightarrow> AudioClient" where
  "setIsStereoInput env namedInputDevice isStereo s =
     (if isStereo \<noteq> isStereoInput s then
        (let s1 = s\<lparr>isStereoInput := isStereo\<rparr>;
             s2 = (if isStereoInput s1
                   then s1\<lparr>desiredInputFormat := (desiredInputFormat s1)\<lparr>channelCount := 2\<rparr>\<rparr>
                   else s1\<lparr>desiredInputFormat := (desiredInputFormat s1)\<lparr>channelCount := 1\<rparr>\<rparr>)
         in snd (switchInputToAudioDevice env namedInputDevice s2))
      else s)"

text \<open>
  \<^verbatim>\<open>AudioClient::handleLocalEchoAndReverb\<close> up to the call of \<^verbatim>\<open>possibleResampling\<close>
  with the loopback resampler: the flag tells whether that call is reached.
  \<open>streamHasReverb\<close> is \<^verbatim>\<open>_receivedAudioStream.hasReverb()\<close>; the loopback output is
  taken to start when it is asked to.
\<close>

definition handleLocalEchoAndReverb :: "Env \<Rightarrow> bool \<Rightarrow> AudioClient \<Rightarrow> bool \<times> AudioClient" where
  "handleLocalEchoAndReverb env streamHasReverb s0 =
     (let hasLocalReverb = ((reverb s0 \<or> streamHasReverb) \<and> \<not> shouldEchoToServer s0)
      in if muted s0 \<or> \<not> audioOutput s0 \<or> (\<not> shouldEchoLocally s0 \<and> \<not> hasLocalReverb)
         then (False, s0)
         else
           (let s1 = (if \<not> loopbackOutputDevice s0 \<and> loopbackAudioOutput s0
                      then s0\<lparr>loopbackOutputDevice := True\<rparr> else s0)
            in if sampleRate (inputFormat s1) \<noteq> sampleRate (outputFormat s1)
                  \<and> loopbackResampler s1 = None
               then
                 (let s2 = s1\<lparr>loopbackResampler :=
                              soxrResamplerFromInputFormatToOutputFormat env
                                (inputFormat s1) (outputFormat s1)\<rparr>
                  in if loopbackResampler s2 = None then (False, s2) else (True, s2))
               else (True, s1)))"

section \<open>Destination sample counts\<close>

text \<open>
  \<^verbatim>\<open>numDestinationSamplesRequired\<close>: the two ratios, their product, the product with the
  sample count and the sum with \<^verbatim>\<open>0.5f\<close> are single-precision operations on integers
  converted to \<^verbatim>\<open>float\<close>; the returned \<^verbatim>\<open>int\<close> is the truncated sum. The arguments are
  32-bit integers; a zero divisor (an infinite or undefined ratio) and a sum outside the
  range of \<^verbatim>\<open>int\<close> are undefined in the source and \<open>None\<close> here. \<open>fitsInt\<close> is the
  range of \<^verbatim>\<open>int\<close>.
\<close>

definition fitsInt :: "int \<Rightarrow> bool" where
  "fitsInt x \<longleftrightarrow> - 2147483648 \<le> x \<and> x \<le> 2147483647"

definition numDestinationSamplesRequired ::
  "QAudioFormat \<Rightarrow> QAudioFormat \<Rightarrow> int \<Rightarrow> int option" where
  "numDestinationSamplesRequired sourceFormat destinationFormat numSourceSamples =
     (if fitsInt (channelCount sourceFormat) \<and> fitsInt (sampleRate sourceFormat)
         \<and> fitsInt (channelCount destinationFormat) \<and> fitsInt (sampleRate destinationFormat)
         \<and> fitsInt numSourceSamples
         \<and> channelCount sourceFormat \<noteq> 0 \<and> sampleRate sourceFormat \<noteq> 0
      then
        (let ratio0 = float32 (float32 (rat_of_int (channelCount destinationFormat))
                                / float32 (rat_of_int (channelCount sourceFormat)));
             ratio = float32 (ratio0
                       * float32 (float32 (rat_of_int (sampleRate destinationFormat))
                                   / float32 (rat_of_int (sampleRate sourceFormat))));
             result = truncateToInt
                        (float32 (float32 (float32 (rat_of_int numSourceSamples) * ratio) + 1 / 2))
         in if fitsInt result then Some result else None)
      else None)"

text \<open>
  The count that \<^verbatim>\<open>AudioClient::handleLocalEchoAndReverb\<close> passes to
  \<^verbatim>\<open>possibleResampling\<close> as \<^verbatim>\<open>numDestinationSamples\<close> on the loopback path, from the size
  in bytes of the captured buffer: the loopback buffer is resized to that many samples.
\<close>

definition loopbackNumDestinationSamples :: "AudioClient \<Rightarrow> int \<Rightarrow> int option" where
  "loopbackNumDestinationSamples s inputByteArraySize =
     (if 0 \<le> inputByteArraySize
      then numDestinationSamplesRequired (inputFormat s) (outputFormat s)
             (inputByteArraySize div 2)
      else None)"

text \<open>
  The count that \<^verbatim>\<open>AudioClient::processReceivedSamples\<close> passes to
  \<^verbatim>\<open>possibleResampling\<close> as \<^verbatim>\<open>numDestinationSamples\<close>, from the size in bytes of the
  buffer popped from the jitter buffer. The arithmetic is 32-bit \<^verbatim>\<open>int\<close> arithmetic with
  truncating division; a product outside the range of \<^verbatim>\<open>int\<close> and a zero divisor are
  undefined in the source and \<open>None\<close> here.
\<close>

definition numDeviceOutputSamples :: "AudioClient \<Rightarrow> int \<Rightarrow> int option" where
  "numDeviceOutputSamples s inputBufferSize =
     (let numNetworkOutputSamples = inputBufferSize div 2;
          outputProduct = sampleRate (outputFormat s) * channelCount (outputFormat s);
          desiredProduct =
            sampleRate (desiredOutputFormat s) * channelCount (desiredOutputFormat s)
      in if 0 \<le> inputBufferSize \<and> fitsInt numNetworkOutputSamples
            \<and> fitsInt outputProduct \<and> fitsInt desiredProduct
            \<and> fitsInt (numNetworkOutputSamples * outputProduct) \<and> desiredProduct \<noteq> 0
            \<and> fitsInt ((numNetworkOutputSamples * outputProduct) sdiv desiredProduct)
         then Some ((numNetworkOutputSamples * outputProduct) sdiv desiredProduct)
         else None)"

text \<open>
  The destination count in the words of the specification:
  round(srcSamples * dstRate/srcRate * dstChannels/srcChannels), in exact arithmetic.
\<close>

definition roundedDestinationSamples :: "QAudioFormat \<Rightarrow> QAudioFormat \<Rightarrow> int \<Rightarrow> int" where
  "roundedDestinationSamples sourceFormat destinationFormat numSourceSamples =
     round (rat_of_int numSourceSamples
              * (rat_of_int (sampleRate destinationFormat) / rat_of_int (sampleRate sourceFormat))
              * (rat_of_int (channelCount destinationFormat)
                   / rat_of_int (channelCount sourceFormat)))"

section \<open>Output starvation\<close>

text \<open>\<^verbatim>\<open>AudioClient::setOutputBufferSize\<close>.\<close>

definition setOutputBufferSize :: "Env \<Rightarrow> int \<Rightarrow> AudioClient \<Rightarrow> AudioClient" where
  "setOutputBufferSize env numFrames0 s =
     (let numFrames = min (max numFrames0 (MIN_AUDIO_OUTPUT_BUFFER_SIZE_FRAMES env))
                          (MAX_AUDIO_OUTPUT_BUFFER_SIZE_FRAMES env)
      in if numFrames \<noteq> outputBufferSizeFrames s then
           (let s1 = s\<lparr>outputBufferSizeFrames := numFrames\<rparr>
            in if audioOutput s1
               then snd (switchOutputToAudioDevice env (defaultOutputDevice env) s1)
               else s1)
         else s)"

text \<open>
  \<^verbatim>\<open>AudioClient::outputNotify\<close>. \<open>recentUnfulfilled\<close> is what
  \<^verbatim>\<open>getRecentUnfulfilledReads()\<close> returns and \<open>now\<close> is
  \<^verbatim>\<open>usecTimestampNow() / 1000\<close>. The times are unsigned 64-bit values: the difference
  wraps, and the \<^verbatim>\<open>int\<close> period is converted to unsigned for the comparison.
\<close>

definition outputNotify :: "Env \<Rightarrow> int \<Rightarrow> quint64 \<Rightarrow> AudioClient \<Rightarrow> AudioClient" where
  "outputNotify env recentUnfulfilled now s =
     (if recentUnfulfilled > 0 then
        (if outputStarveDetectionEnabled s then
           (let dt = now - outputStarveDetectionStartTimeMsec s
            in if dt > word_of_int (outputStarveDetectionPeriodMsec s) then
                 s\<lparr>outputStarveDetectionStartTimeMsec := now, outputStarveDetectionCount := 0\<rparr>
               else
                 (let s1 = s\<lparr>outputStarveDetectionCount :=
                              outputStarveDetectionCount s + recentUnfulfilled\<rparr>
                  in if outputStarveDetectionCount s1 > outputStarveDetectionThreshold s1 then
                       (let newOutputBufferSizeFrames = outputBufferSizeFrames s1 + 1;
                            s2 = setOutputBufferSize env newOutputBufferSizeFrames s1
                        in s2\<lparr>outputStarveDetectionStartTimeMsec := now,
                              outputStarveDetectionCount := 0\<rparr>)
                     else s1))
         else s)
      else s)"

text \<open>
  Two readings of a notification, for stating what it does: the condition under which
  \<^verbatim>\<open>outputNotify\<close> restarts the detection window because the period has elapsed, and
  the condition under which it calls \<^verbatim>\<open>setOutputBufferSize\<close> (the threshold is crossed
  inside the window). \<open>outputNotifies\<close> is a sequence of notifications, each with its
  reading and its time.
\<close>

definition starveWindowExpired :: "AudioClient \<Rightarrow> int \<Rightarrow> quint64 \<Rightarrow> bool" where
  "starveWindowExpired s recentUnfulfilled now \<longleftrightarrow>
     recentUnfulfilled > 0 \<and> outputStarveDetectionEnabled s
     \<and> now - outputStarveDetectionStartTimeMsec s > word_of_int (outputStarveDetectionPeriodMsec s)"

definition starveThresholdMet :: "AudioClient \<Rightarrow> int \<Rightarrow> quint64 \<Rightarrow> bool" where
  "starveThresholdMet s recentUnfulfilled now \<longleftrightarrow>
     recentUnfulfilled > 0 \<and> outputStarveDetectionEnabled s
     \<and> \<not> now - outputStarveDetectionStartTimeMsec s > word_of_int (outputStarveDetectionPeriodMsec s)
     \<and> outputStarveDetectionCount s + recentUnfulfilled > outputStarveDetectionThreshold s"

definition outputNotifies :: "Env \<Rightarrow> AudioClient \<Rightarrow> (int \<times> quint64) list \<Rightarrow> AudioClient" where
  "outputNotifies env s ticks = foldl (\<lambda>s (recentUnfulfilled, now). outputNotify env recentUnfulfilled now s) s ticks"

section \<open>The output device's read\<close>

text \<open>
  \<^verbatim>\<open>AudioClient::AudioOutputIODevice::readData\<close>. \<open>popSamples n\<close> is the run of samples
  that \<^verbatim>\<open>_receivedAudioStream.popSamples(n, false)\<close> pops and that the iterator of
  \<^verbatim>\<open>getLastPopOutput()\<close> then reads; its length is \<^verbatim>\<open>samplesPopped\<close>.
  \<open>bytesAudioOutputUnplayed\<close> is \<^verbatim>\<open>bufferSize() - bytesFree()\<close> of the output.
  \<open>data\<close> is the caller's buffer, in bytes; a sample is stored low byte first. The
  result is the buffer afterwards, the returned byte count and the new state; a write
  past the end of the buffer and a negative \<open>maxSize\<close> are \<open>None\<close>.
\<close>

definition int16_bytes :: "int16 \<Rightarrow> byte list" where
  "int16_bytes x = [ucast x, ucast (drop_bit 8 x)]"

fun bytes_int16s :: "byte list \<Rightarrow> int16 list" where
  "bytes_int16s (lo # hi # bs) = (or (ucast lo) (push_bit 8 (ucast hi))) # bytes_int16s bs"
| "bytes_int16s bs = []"

definition readData ::
  "(int \<Rightarrow> int16 list) \<Rightarrow> int \<Rightarrow> byte list \<Rightarrow> int \<Rightarrow> AudioClient
     \<Rightarrow> (byte list \<times> int \<times> AudioClient) option" where
  "readData popSamples bytesAudioOutputUnplayed data maxSize s =
     (if maxSize < 0 then None
      else
        (let samplesRequested = maxSize div 2;
             popped = popSamples samplesRequested;
             samplesPopped = int (length popped);
             written =
               (if samplesPopped > 0 then
                  (if 2 * length popped \<le> length data
                   then Some (concat (map int16_bytes popped) @ drop (2 * length popped) data,
                              samplesPopped * 2)
                   else None)
                else
                  (if nat maxSize \<le> length data
                   then Some (replicate (nat maxSize) 0 @ drop (nat maxSize) data, maxSize)
                   else None))
         in case written of
              None \<Rightarrow> None
            | Some (data', bytesWritten) \<Rightarrow>
                Some (data', bytesWritten,
                      if bytesAudioOutputUnplayed = 0 \<and> bytesWritten = 0
                      then s\<lparr>unfulfilledReads := unfulfilledReads s + 1\<rparr>
                      else s)))"

section \<open>Processing captured audio\<close>

text \<open>
  The synthetic sources that \<^verbatim>\<open>AudioClient::handleAudioInput\<close> renders onto the input
  frame buffer before the samples reach the ring buffer.
\<close>

datatype AudioSource = ToneSource | NoiseSource

definition renderedAudioSources :: "AudioClient \<Rightarrow> AudioSource list" where
  "renderedAudioSources s =
     (if \<not> muted s \<and> audioSourceInjectEnabled s then
        (if audioSourceInjectEnabled s then
           (if toneSourceEnabled s then [ToneSource]
            else if noiseSourceEnabled s then [NoiseSource]
            else [])
         else [])
      else [])"

text \<open>
  One iteration of the loop of \<^verbatim>\<open>handleAudioInput\<close>, which consumes
  \<^verbatim>\<open>inputSamplesRequired\<close> samples of the ring buffer. What the iteration takes from
  outside: the contents of \<^verbatim>\<open>networkAudioSamples\<close> after \<^verbatim>\<open>possibleResampling\<close> (and
  after the noise gate, when it runs), what the noise gate reports, and whether the node
  list has an audio mixer with an active socket. The result is the new state and the
  packet handed to \<^verbatim>\<open>writeDatagram\<close>, if any; the value that \<^verbatim>\<open>writeDatagram\<close> returns
  is not read by the source. Head position and orientation are left out of the packet.
  The timer and the loudness are computed in single precision; \<open>SAMPLE_RATE\<close> and the
  frame sample counts are positive constants, so no quotient is infinite or undefined.
\<close>

record FrameInput =
  networkAudioSamples :: "int16 list"
  gateLastLoudness :: rat
  gateClippedInLastFrame :: bool
  audioMixerActive :: bool

datatype PacketType =
  PacketTypeSilentAudioFrame | PacketTypeMicrophoneAudioWithEcho | PacketTypeMicrophoneAudioNoEcho

record AudioPacket =
  packetType :: PacketType
  sequenceNumber :: quint16
  numSilentSamples :: "quint16 option"
  isStereo :: "byte option"
  audioSamples :: "int16 list"

definition frameClipped :: "Env \<Rightarrow> int16 list \<Rightarrow> bool" where
  "frameClipped env samples = list_ex (\<lambda>x. rat_of_int \<bar>sint x\<bar> > CLIPPING_LEVEL env) samples"

definition frameLoudness :: "int \<Rightarrow> int16 list \<Rightarrow> rat" where
  "frameLoudness numNetworkSamples samples =
     \<bar>float32 (foldl (\<lambda>loudness x. float32 (loudness + \<bar>float32 (rat_of_int (sint x))\<bar>)) 0 samples
                / float32 (rat_of_int numNetworkSamples))\<bar>"

definition handleAudioInputFrame ::
  "Env \<Rightarrow> FrameInput \<Rightarrow> AudioClient \<Rightarrow> AudioClient \<times> AudioPacket option" where
  "handleAudioInputFrame env x s0 =
     (let numNetworkSamples =
            (if isStereoInput s0 then NETWORK_FRAME_SAMPLES_STEREO env
             else NETWORK_FRAME_SAMPLES_PER_CHANNEL env);
          samples = take (nat numNetworkSamples) (networkAudioSamples x);
          s3 =
            (if \<not> muted s0 then
               (let s1 = (if timeSinceLastClip s0 \<ge> 0
                          then s0\<lparr>timeSinceLastClip :=
                                   float32 (timeSinceLastClip s0
                                     + float32 (float32 (rat_of_int numNetworkSamples)
                                                 / float32 (rat_of_int (SAMPLE_RATE env))))\<rparr>
                          else s0)
                in if \<not> isStereoInput s1 \<and> \<not> audioSourceInjectEnabled s1 \<and> isNoiseGateEnabled s1
                   then
                     (let s2 = s1\<lparr>lastInputLoudness := gateLastLoudness x\<rparr>
                      in if gateClippedInLastFrame x then s2\<lparr>timeSinceLastClip := 0\<rparr> else s2)
                   else
                     (let s2 = (if frameClipped env samples
                                then s1\<lparr>timeSinceLastClip := 0\<rparr> else s1)
                      in s2\<lparr>lastInputLoudness := frameLoudness numNetworkSamples samples\<rparr>))
             else s0\<lparr>lastInputLoudness := 0, timeSinceLastClip := 0\<rparr>)
      in if audioMixerActive x then
           (let packetType =
                  (if lastInputLoudness s3 = 0 then PacketTypeSilentAudioFrame
                   else if shouldEchoToServer s3 then PacketTypeMicrophoneAudioWithEcho
                   else PacketTypeMicrophoneAudioNoEcho);
                packet =
                  (if packetType = PacketTypeSilentAudioFrame
                   then \<lparr>packetType = packetType,
                         sequenceNumber = outgoingAvatarAudioSequenceNumber s3,
                         numSilentSamples = Some (word_of_int numNetworkSamples),
                         isStereo = None, audioSamples = []\<rparr>
                   else \<lparr>packetType = packetType,
                         sequenceNumber = outgoingAvatarAudioSequenceNumber s3,
                         numSilentSamples = None,
                         isStereo = Some (if isStereoInput s3 then 1 else 0),
                         audioSamples = samples\<rparr>)
            in (s3\<lparr>outgoingAvatarAudioSequenceNumber :=
                      outgoingAvatarAudioSequenceNumber s3 + 1\<rparr>, Some packet))
         else (s3, None))"

text \<open>
  For stating what an iteration does to the clip timer: the duration of one network
  frame, \<open>NETWORK_FRAME_SAMPLES_PER_CHANNEL\<close> samples per channel at \<open>SAMPLE_RATE\<close>
  samples per second, as an exact number of seconds and as the \<^verbatim>\<open>float\<close> quotient of
  the two constants; and the condition under which an unmuted iteration assigns \<open>0\<close>
  to the timer (the noise gate's report when the gate runs, a sample above the clipping
  level otherwise).
\<close>

definition networkFrameDurationSeconds :: "Env \<Rightarrow> rat" where
  "networkFrameDurationSeconds env =
     rat_of_int (NETWORK_FRAME_SAMPLES_PER_CHANNEL env) / rat_of_int (SAMPLE_RATE env)"

definition networkFrameDuration32 :: "Env \<Rightarrow> rat" where
  "networkFrameDuration32 env =
     float32 (float32 (rat_of_int (NETWORK_FRAME_SAMPLES_PER_CHANNEL env))
               / float32 (rat_of_int (SAMPLE_RATE env)))"



text \<open>
  The loop itself: \<open>available\<close> is \<^verbatim>\<open>_inputRingBuffer.samplesAvailable()\<close>, which each
  iteration lowers by \<open>inputSamplesRequired\<close>; \<open>inputs k\<close> is what iteration \<open>k\<close>
  takes from outside. With \<open>inputSamplesRequired \<le> 0\<close> the condition of the loop stays
  true and the loop does not return, which is \<open>None\<close>.
\<close>

function handleAudioInputLoop ::
  "Env \<Rightarrow> int \<Rightarrow> (nat \<Rightarrow> FrameInput) \<Rightarrow> nat \<Rightarrow> int \<Rightarrow> AudioClient
     \<Rightarrow> (AudioClient \<times> AudioPacket list) option" where
  "handleAudioInputLoop env inputSamplesRequired inputs k available s =
     (if available \<ge> inputSamplesRequired then
        (if inputSamplesRequired \<le> 0 then None
         else
           (case handleAudioInputFrame env (inputs k) s of
              (s', sent) \<Rightarrow>
                map_option (\<lambda>(s'', packets). (s'', (case sent of None \<Rightarrow> [] | Some p \<Rightarrow> [p]) @ packets))
                  (handleAudioInputLoop env inputSamplesRequired inputs (k + 1)
                     (available - inputSamplesRequired) s')))
      else Some (s, []))"
  by pat_completeness auto
termination
  by (relation "measure (\<lambda>(env, r, inputs, k, available, s). nat available)") auto

declare handleAudioInputLoop.simps [simp del]

section \<open>Runs of the audio client\<close>

text \<open>
  The calls that reach the client, and a run of calls from the constructed state. A
  \<open>ReadData\<close> whose write leaves the buffer changes nothing here.
\<close>

datatype Event =
    Start
  | Stop
  | SwitchInputToAudioDevice QAudioDeviceInfo
  | SwitchOutputToAudioDevice QAudioDeviceInfo
  | SetIsStereoInput QAudioDeviceInfo bool
  | HandleLocalEchoAndReverb bool
  | HandleAudioInputFrame FrameInput
  | OutputNotify int quint64
  | SetOutputBufferSize int
  | ReadData "int \<Rightarrow> int16 list" int "byte list" int
  | AudioMixerKilled
  | ToggleMute
  | ToggleAudioSourceInject
  | SelectAudioSourcePinkNoise
  | SelectAudioSourceSine440

fun handleEvent :: "Env \<Rightarrow> AudioClient \<Rightarrow> Event \<Rightarrow> AudioClient" where
  "handleEvent env s Start = start env s"
| "handleEvent env s Stop = stop env s"
| "handleEvent env s (SwitchInputToAudioDevice d) = snd (switchInputToAudioDevice env d s)"
| "handleEvent env s (SwitchOutputToAudioDevice d) = snd (switchOutputToAudioDevice env d s)"
| "handleEvent env s (SetIsStereoInput d b) = setIsStereoInput env d b s"
| "handleEvent env s (HandleLocalEchoAndReverb r) = snd (handleLocalEchoAndReverb env r s)"
| "handleEvent env s (HandleAudioInputFrame x) = fst (handleAudioInputFrame env x s)"
| "handleEvent env s (OutputNotify n t) = outputNotify env n t s"
| "handleEvent env s (SetOutputBufferSize n) = setOutputBufferSize env n s"
| "handleEvent env s (ReadData popSamples unplayed data maxSize) =
     (case readData popSamples unplayed data maxSize s of
        None \<Rightarrow> s
      | Some (data', bytesWritten, s') \<Rightarrow> s')"
| "handleEvent env s AudioMixerKilled = audioMixerKilled s"
| "handleEvent env s ToggleMute = toggleMute s"
| "handleEvent env s ToggleAudioSourceInject = toggleAudioSourceInject s"
| "handleEvent env s SelectAudioSourcePinkNoise = selectAudioSourcePinkNoise s"
| "handleEvent env s SelectAudioSourceSine440 = selectAudioSourceSine440 s"

definition run :: "Env \<Rightarrow> Event list \<Rightarrow> AudioClient" where
  "run env events = foldl (handleEvent env) (AudioClient_new env) events"

section \<open>A concrete configuration\<close>

text \<open>
  Values for concrete runs. \<open>SAMPLE_RATE\<close> is the 24 kHz that the comments of
  \<^verbatim>\<open>adjustedFormatForAudioDevice\<close> imply (its double is "48"); the other values are
  examples. \<open>fixedRateDevice r\<close> is a device that supports exactly the formats of
  sample rate \<open>r\<close> and maps every format to that rate.
\<close>

definition fixedRateDevice :: "int \<Rightarrow> QAudioDeviceInfo" where
  "fixedRateDevice r =
     \<lparr>isNull = False, deviceName = ''device'', isFormatSupported = (\<lambda>f. sampleRate f = r),
      supportedSampleRates = [r], nearestFormat = (\<lambda>f. f\<lparr>sampleRate := r\<rparr>)\<rparr>"

definition exampleEnv :: Env where
  "exampleEnv =
     \<lparr>SAMPLE_RATE = 24000,
      NETWORK_FRAME_SAMPLES_PER_CHANNEL = 256,
      NETWORK_FRAME_SAMPLES_STEREO = 512,
      CLIPPING_LEVEL = 32767 * (98 / 100),
      MIN_AUDIO_OUTPUT_BUFFER_SIZE_FRAMES = 1,
      MAX_AUDIO_OUTPUT_BUFFER_SIZE_FRAMES = 20,
      Q_OS_ANDROID = False,
      soxrCreateOk = (\<lambda>a b. True),
      audioInputStarts = True,
      defaultInputDevice = fixedRateDevice 48000,
      defaultOutputDevice = fixedRateDevice 44100,
      DEFAULT_MAX_FRAMES_OVER_DESIRED = 10,
      DEFAULT_AUDIO_OUTPUT_STARVE_DETECTION_ENABLED = True,
      DEFAULT_AUDIO_OUTPUT_STARVE_DETECTION_PERIOD = 10000,
      DEFAULT_AUDIO_OUTPUT_STARVE_DETECTION_THRESHOLD = 3\<rparr>"


definition quietFrame :: FrameInput where
  "quietFrame =
     \<lparr>networkAudioSamples = replicate 256 0, gateLastLoudness = 0,
      gateClippedInLastFrame = False, audioMixerActive = True\<rparr>"

section \<open>Stereo to mono\<close>

lemma sdiv_2_truncates: "(k :: int) sdiv 2 = (if 0 \<le> k then k div 2 else - ((- k) div 2))"
  by (simp add: signed_divide_int_def sgn_if)

lemma sdiv2_bounds:
  "- 16384 \<le> (sint (a::int16)) sdiv 2 \<and> (sint a) sdiv 2 \<le> 16383"
proof -
  have "- 32768 \<le> sint a" "sint a < 32768"
    using sint_ge [of a] sint_lt [of a] by simp_all
  then show ?thesis
    by (simp add: signed_divide_int_def sgn_if) arith
qed

lemma sint_stereoFrameToMono:
  "sint (stereoFrameToMono a b) = (sint a sdiv 2) + (sint b sdiv 2)"
proof -
  let ?x = "(sint a sdiv 2) + (sint b sdiv 2)"
  have "- 32768 \<le> ?x" "?x < 32768"
    using sdiv2_bounds [of a] sdiv2_bounds [of b] by linarith+
  moreover have "sint (word_of_int x :: int16) = x" if "- 32768 \<le> x" "x < 32768" for x
    using that by (simp add: sint_sbintrunc' signed_take_bit_int_eq_self)
  ultimately show ?thesis
    unfolding stereoFrameToMono_def by blast
qed

lemma stereoToMonoLoop_inv:
  "even i \<Longrightarrow> even n \<Longrightarrow> i \<le> n \<Longrightarrow> n \<le> length src \<Longrightarrow> n div 2 \<le> length dst \<Longrightarrow>
   \<exists>dst'. stereoToMonoLoop i n src dst = Some dst' \<and> length dst' = length dst \<and>
     (\<forall>k. i div 2 \<le> k \<and> k < n div 2 \<longrightarrow>
        dst' ! k = stereoFrameToMono (src ! (2 * k)) (src ! (2 * k + 1))) \<and>
     (\<forall>k. k < i div 2 \<or> n div 2 \<le> k \<longrightarrow> dst' ! k = dst ! k)"
proof (induction i n src dst rule: stereoToMonoLoop.induct)
  case (1 i n src dst)
  show ?case
  proof (cases "i < n")
    case False
    with "1.prems" have "i = n" by simp
    then show ?thesis by (auto simp: stereoToMonoLoop.simps [of n n src dst])
  next
    case True
    with "1.prems" have i2: "i + 2 \<le> n" by presburger
    with "1.prems" have a: "i + 1 < length src" "i div 2 < length dst" by presburger+
    let ?d = "dst[i div 2 := stereoFrameToMono (src ! i) (src ! (i + 1))]"
    from "1.IH" [OF True] a i2 "1.prems"
    obtain dst' where r: "stereoToMonoLoop (i + 2) n src ?d = Some dst'"
      "length dst' = length dst"
      "\<forall>k. (i + 2) div 2 \<le> k \<and> k < n div 2 \<longrightarrow>
        dst' ! k = stereoFrameToMono (src ! (2 * k)) (src ! (2 * k + 1))"
      "\<forall>k. k < (i + 2) div 2 \<or> n div 2 \<le> k \<longrightarrow> dst' ! k = ?d ! k"
      by auto
    have e: "stereoToMonoLoop i n src dst = Some dst'"
      using True a r(1) by (simp add: stereoToMonoLoop.simps [of i n src dst])
    have i2k: "2 * (i div 2) = i" using "1.prems"(1) by simp
    have p1: "dst' ! k = stereoFrameToMono (src ! (2 * k)) (src ! (2 * k + 1))"
      if "i div 2 \<le> k \<and> k < n div 2" for k
    proof (cases "k = i div 2")
      case True
      then have "dst' ! k = ?d ! k" using r(4) by simp
      then show ?thesis using True a(2) i2k by simp
    next
      case False
      then have "(i + 2) div 2 \<le> k" using that by simp
      then show ?thesis using r(3) that by blast
    qed
    have p2: "dst' ! k = dst ! k" if "k < i div 2 \<or> n div 2 \<le> k" for k
    proof -
      have "k \<noteq> i div 2" using that i2 by auto
      moreover have "dst' ! k = ?d ! k" using r(4) that by auto
      ultimately show ?thesis by simp
    qed
    show ?thesis using e r(2) p1 p2 by blast
  qed
qed

text \<open>
  C2: when a stereo buffer of \<open>n\<close> samples is converted to mono, the conversion
  succeeds and frame \<open>k\<close> of the destination is exactly
  \<open>(a / 2) + (b / 2)\<close> for the pair \<open>(a, b)\<close> at positions \<open>2 k\<close> and \<open>2 k + 1\<close>
  of the source, each half truncated toward zero and the sum not wrapping; the rest of
  the destination is untouched. This is not \<open>(a + b) / 2\<close>: the two differ at
  \<open>a = b = 1\<close>.
\<close>

theorem stereo_to_mono_conversion:
  assumes "channelCount sf = 2" and "channelCount df = 1"
    and "even n" and "n \<le> length src" and "n div 2 \<le> length dst"
  shows "\<exists>dst'. sampleChannelConversion src dst n sf df = Some (True, dst')
     \<and> length dst' = length dst
     \<and> (\<forall>k < n div 2. sint (dst' ! k)
            = (sint (src ! (2 * k)) sdiv 2) + (sint (src ! (2 * k + 1)) sdiv 2))
     \<and> (\<forall>k. n div 2 \<le> k \<longrightarrow> dst' ! k = dst ! k)
     \<and> stereoFrameToMono 1 1 = 0 \<and> word_of_int ((sint (1 :: int16) + sint (1 :: int16)) sdiv 2) = (1 :: int16)"
proof -
  from stereoToMonoLoop_inv [of 0 n src dst] assms
  obtain dst' where r: "stereoToMonoLoop 0 n src dst = Some dst'"
      "length dst' = length dst"
      "\<forall>k. 0 div 2 \<le> k \<and> k < n div 2 \<longrightarrow>
        dst' ! k = stereoFrameToMono (src ! (2 * k)) (src ! (2 * k + 1))"
      "\<forall>k. k < 0 div 2 \<or> n div 2 \<le> k \<longrightarrow> dst' ! k = dst ! k"
    by auto
  have "sampleChannelConversion src dst n sf df = Some (True, dst')"
    using assms r(1) by (simp add: sampleChannelConversion_def)
  moreover have "stereoFrameToMono 1 1 = 0"
    by (simp add: stereoFrameToMono_def signed_divide_int_def)
  moreover have "word_of_int ((sint (1 :: int16) + sint (1 :: int16)) sdiv 2) = (1 :: int16)"
    by (simp add: signed_divide_int_def)
  ultimately show ?thesis using r by (auto simp: sint_stereoFrameToMono)
qed

theorem stereo_to_mono_conversion_witness:
  "\<exists>dst'. sampleChannelConversion [1, 1, - 3, - 5] [7, 7, 7] 4
       (QAudioFormat_default\<lparr>channelCount := 2\<rparr>) (QAudioFormat_default\<lparr>channelCount := 1\<rparr>)
       = Some (True, dst')
     \<and> sint (dst' ! 0) = 0 \<and> sint (dst' ! 1) = - 3 \<and> dst' ! 2 = 7"
proof -
  from stereo_to_mono_conversion [of "QAudioFormat_default\<lparr>channelCount := 2\<rparr>"
      "QAudioFormat_default\<lparr>channelCount := 1\<rparr>" 4 "[1, 1, - 3, - 5]" "[7, 7, 7]"]
  obtain dst' where r: "sampleChannelConversion [1, 1, - 3, - 5] [7, 7, 7] 4
       (QAudioFormat_default\<lparr>channelCount := 2\<rparr>) (QAudioFormat_default\<lparr>channelCount := 1\<rparr>)
       = Some (True, dst')"
    "\<forall>k < 4 div 2. sint (dst' ! k)
            = (sint ([1, 1, - 3, - 5 :: int16] ! (2 * k)) sdiv 2)
              + (sint ([1, 1, - 3, - 5 :: int16] ! (2 * k + 1)) sdiv 2)"
    "\<forall>k. 4 div 2 \<le> k \<longrightarrow> dst' ! k = [7, 7, 7] ! k"
    by auto
  from r(2) have "sint (dst' ! 0) = 0" "sint (dst' ! 1) = - 3"
    by (simp_all add: signed_divide_int_def)
  moreover from r(3) have "dst' ! 2 = 7" by simp
  ultimately show ?thesis using r(1) by blast
qed

section \<open>Sequence numbers\<close>

lemma handleAudioInputLoop_sequence:
  "handleAudioInputLoop env r inputs k available s = Some (s', packets) \<Longrightarrow>
   outgoingAvatarAudioSequenceNumber s'
     = outgoingAvatarAudioSequenceNumber s + word_of_nat (length packets)"
proof (induction env r inputs k available s arbitrary: s' packets rule: handleAudioInputLoop.induct)
  case (1 env r inputs k available s)
  show ?case
  proof (cases "r \<le> available")
    case False
    with "1.prems" show ?thesis
      by (simp add: handleAudioInputLoop.simps [of env r inputs k available s])
  next
    case True
    with "1.prems" have r: "\<not> r \<le> 0"
      by (auto simp: handleAudioInputLoop.simps [of env r inputs k available s] split: if_splits)
    obtain s1 sent where f: "handleAudioInputFrame env (inputs k) s = (s1, sent)"
      by (cases "handleAudioInputFrame env (inputs k) s")
    from "1.prems" True r f obtain s2 ps where
      l: "handleAudioInputLoop env r inputs (k + 1) (available - r) s1 = Some (s2, ps)"
      and e: "s' = s2" "packets = (case sent of None \<Rightarrow> [] | Some p \<Rightarrow> [p]) @ ps"
      by (auto simp: handleAudioInputLoop.simps [of env r inputs k available s])
    have ih: "outgoingAvatarAudioSequenceNumber s2
        = outgoingAvatarAudioSequenceNumber s1 + word_of_nat (length ps)"
      using "1.IH" [OF True r f [symmetric] l] .
    have s1: "outgoingAvatarAudioSequenceNumber s1
        = outgoingAvatarAudioSequenceNumber s + word_of_nat (length (case sent of None \<Rightarrow> [] | Some p \<Rightarrow> [p]))"
      using f by (auto simp: handleAudioInputFrame_def Let_def split: if_splits)
    show ?thesis unfolding e ih s1 by simp
  qed
qed

lemma handleAudioInputLoop_returns:
  "0 < r \<Longrightarrow> \<exists>s' packets. handleAudioInputLoop env r inputs k available s = Some (s', packets)"
proof (induction env r inputs k available s rule: handleAudioInputLoop.induct)
  case (1 env r inputs k available s)
  show ?case
  proof (cases "r \<le> available")
    case False
    then show ?thesis
      by (simp add: handleAudioInputLoop.simps [of env r inputs k available s])
  next
    case True
    obtain s1 sent where f: "handleAudioInputFrame env (inputs k) s = (s1, sent)"
      by (cases "handleAudioInputFrame env (inputs k) s")
    have r: "\<not> r \<le> 0" using "1.prems" by simp
    from "1.IH" [OF True r f [symmetric] "1.prems"]
    obtain s2 ps where
      "handleAudioInputLoop env r inputs (k + 1) (available - r) s1 = Some (s2, ps)"
      by auto
    then show ?thesis using True "1.prems" f
      by (simp add: handleAudioInputLoop.simps [of env r inputs k available s])
  qed
qed

text \<open>
  C1, as the code has it: an iteration of the loop of \<^verbatim>\<open>handleAudioInput\<close> increments
  the outgoing sequence number exactly once, modulo \<open>2 ^ 16\<close>, when the node list has
  an audio mixer with an active socket, and leaves it unchanged when it has none. This
  holds for every state, muted or not, and does not depend on what \<^verbatim>\<open>writeDatagram\<close>
  returns; the iterations that increment are exactly those that hand a packet to the
  transport.
\<close>

theorem sequence_number_per_frame:
  "outgoingAvatarAudioSequenceNumber (fst (handleAudioInputFrame env x s))
     = (if audioMixerActive x then outgoingAvatarAudioSequenceNumber s + 1
        else outgoingAvatarAudioSequenceNumber s)
   \<and> unat (outgoingAvatarAudioSequenceNumber s + 1)
       = (unat (outgoingAvatarAudioSequenceNumber s) + 1) mod 2 ^ 16
   \<and> (snd (handleAudioInputFrame env x s) = None) = (\<not> audioMixerActive x)"
  by (simp add: handleAudioInputFrame_def Let_def unat_word_ariths)

text \<open>
  The specification asks for an increment on every iteration. Without an audio mixer the
  iteration consumes its samples and the sequence number stays where it was.
\<close>

theorem sequence_number_counterexample:
  "outgoingAvatarAudioSequenceNumber
     (fst (handleAudioInputFrame exampleEnv (quietFrame\<lparr>audioMixerActive := False\<rparr>)
        (AudioClient_new exampleEnv)))
   \<noteq> outgoingAvatarAudioSequenceNumber (AudioClient_new exampleEnv) + 1"
  by (simp add: handleAudioInputFrame_def Let_def AudioClient_new_def quietFrame_def)

section \<open>Single-precision rounding\<close>

text \<open>
  Values of \<open>float32\<close> that are known from the binary32 format: 0.1f is
  \<^verbatim>\<open>0x3DCCCCCD\<close>, a third is \<^verbatim>\<open>0x3EAAAAAB\<close>, and above \<open>2 ^ 24\<close> odd integers round
  to the neighbour with the even significand.
\<close>

lemma float32_examples:
  "float32 (1 / 10) = 13421773 / 134217728"
  "float32 (1 / 3) = 11184811 / 33554432"
  "float32 16777217 = 16777216"
  "float32 16777219 = 16777220"
  "float32 (- 5 / 2) = - 5 / 2"
  by code_simp+


lemma pow2_pos: "0 < pow2 e"
  by (simp add: pow2_def)


text \<open>The exponent is the right one, and rounding goes to a nearest value of the grid.\<close>

lemma pow2_powi: "pow2 e = 2 powi e"
  by (simp add: pow2_def power_int_def field_simps)

lemma pow2_add: "pow2 (a + b) = pow2 a * pow2 b"
  by (simp add: pow2_powi power_int_add)

lemma pow2_diff: "pow2 (a - b) = pow2 a / pow2 b"
  by (simp add: pow2_powi power_int_diff)

lemma pow2_mono: "a \<le> b \<Longrightarrow> pow2 a \<le> pow2 b"
  by (simp add: pow2_powi power_int_increasing)

lemma pow2_nat: "0 \<le> e \<Longrightarrow> pow2 e = 2 ^ nat e"
  by (simp add: pow2_def)

lemma floorLog2_bounds:
  assumes "0 < x"
  shows "pow2 (floorLog2 x) \<le> x \<and> x < pow2 (floorLog2 x + 1)"
proof -
  obtain p q where pq: "quotient_of x = (p, q)" by (cases "quotient_of x")
  have q: "0 < q" using quotient_of_denom_pos [OF pq] .
  have x: "x = rat_of_int p / rat_of_int q" using quotient_of_div [OF pq] .
  have p: "0 < p" using assms q unfolding x by (simp add: zero_less_divide_iff)
  define e where "e = bitlen p - bitlen q"
  have bp: "2 ^ nat (bitlen p - 1) \<le> p" "p < 2 ^ nat (bitlen p)"
    using bitlen_bounds [OF p] by simp_all
  have bq: "2 ^ nat (bitlen q - 1) \<le> q" "q < 2 ^ nat (bitlen q)"
    using bitlen_bounds [OF q] by simp_all
  have np: "1 \<le> bitlen p" "1 \<le> bitlen q" using p q by (auto simp: bitlen_alt_def)
  have P1: "pow2 (bitlen p - 1) \<le> rat_of_int p"
  proof -
    have "rat_of_int (2 ^ nat (bitlen p - 1)) \<le> rat_of_int p" using bp(1) by (simp only: of_int_le_iff)
    then show ?thesis using np by (simp add: pow2_nat)
  qed
  have P2: "rat_of_int p < pow2 (bitlen p)"
  proof -
    have "rat_of_int p < rat_of_int (2 ^ nat (bitlen p))" using bp(2) by (simp only: of_int_less_iff)
    then show ?thesis using np by (simp add: pow2_nat)
  qed
  have Q1: "pow2 (bitlen q - 1) \<le> rat_of_int q"
  proof -
    have "rat_of_int (2 ^ nat (bitlen q - 1)) \<le> rat_of_int q" using bq(1) by (simp only: of_int_le_iff)
    then show ?thesis using np by (simp add: pow2_nat)
  qed
  have Q2: "rat_of_int q < pow2 (bitlen q)"
  proof -
    have "rat_of_int q < rat_of_int (2 ^ nat (bitlen q))" using bq(2) by (simp only: of_int_less_iff)
    then show ?thesis using np by (simp add: pow2_nat)
  qed
  have qpos: "0 < rat_of_int q" using q by simp
  have ppos: "0 < rat_of_int p" using p by simp
  have up: "x < pow2 (e + 1)"
  proof -
    have "x * rat_of_int q = rat_of_int p" using qpos by (simp add: x)
    also have "\<dots> < pow2 (bitlen p)" by (rule P2)
    also have "pow2 (bitlen p) = pow2 (e + 1) * pow2 (bitlen q - 1)"
      by (simp add: e_def pow2_add [symmetric])
    also have "\<dots> \<le> pow2 (e + 1) * rat_of_int q"
      using Q1 pow2_pos [of "e + 1"] by (simp add: mult_le_cancel_left_pos)
    finally show ?thesis using qpos by (simp add: mult_less_cancel_right_pos)
  qed
  have lo: "pow2 (e - 1) \<le> x"
  proof -
    have "pow2 (e - 1) * rat_of_int q \<le> pow2 (e - 1) * pow2 (bitlen q)"
      using Q2 pow2_pos [of "e - 1"] by (simp add: mult_le_cancel_left_pos less_imp_le)
    also have "\<dots> = pow2 (bitlen p - 1)" by (simp add: e_def pow2_add [symmetric])
    also have "\<dots> \<le> rat_of_int p" by (rule P1)
    also have "\<dots> = x * rat_of_int q" using qpos by (simp add: x)
    finally show ?thesis using qpos by (simp add: mult_le_cancel_right_pos)
  qed
  have f: "floorLog2 x = (if pow2 e \<le> x then e else e - 1)"
    by (simp add: floorLog2_def pq e_def Let_def)
  show ?thesis
  proof (cases "pow2 e \<le> x")
    case True
    then show ?thesis using up f by simp
  next
    case False
    then show ?thesis using lo f by simp
  qed
qed

lemma roundTiesToEven_error: "\<bar>rat_of_int (roundTiesToEven y) - y\<bar> \<le> 1 / 2"
proof -
  define r where "r = y - rat_of_int \<lfloor>y\<rfloor>"
  have r: "0 \<le> r" "r < 1" unfolding r_def by linarith+
  have y: "y = rat_of_int \<lfloor>y\<rfloor> + r" by (simp add: r_def)
  have "roundTiesToEven y = (if r < 1 / 2 then \<lfloor>y\<rfloor>
         else if 1 / 2 < r then \<lfloor>y\<rfloor> + 1
         else if even \<lfloor>y\<rfloor> then \<lfloor>y\<rfloor> else \<lfloor>y\<rfloor> + 1)"
    by (simp add: roundTiesToEven_def Let_def r_def)
  then have "rat_of_int (roundTiesToEven y) - y = - r \<or> rat_of_int (roundTiesToEven y) - y = 1 - r"
    "r < 1 / 2 \<longrightarrow> rat_of_int (roundTiesToEven y) - y = - r"
    "1 / 2 < r \<longrightarrow> rat_of_int (roundTiesToEven y) - y = 1 - r"
    using y by (auto split: if_splits)
  then show ?thesis using r by (cases "r < 1 / 2"; cases "1 / 2 < r") (auto simp: abs_if)
qed

lemma roundTiesToEven_mono: "x \<le> y \<Longrightarrow> roundTiesToEven x \<le> roundTiesToEven y"
proof -
  assume xy: "x \<le> y"
  have fx: "rat_of_int \<lfloor>x\<rfloor> \<le> x" "x < rat_of_int \<lfloor>x\<rfloor> + 1" by linarith+
  have fy: "rat_of_int \<lfloor>y\<rfloor> \<le> y" "y < rat_of_int \<lfloor>y\<rfloor> + 1" by linarith+
  have m: "\<lfloor>x\<rfloor> \<le> \<lfloor>y\<rfloor>" using xy by (rule floor_mono)
  show ?thesis
  proof (cases "\<lfloor>x\<rfloor> = \<lfloor>y\<rfloor>")
    case True
    then show ?thesis using xy by (auto simp: roundTiesToEven_def Let_def)
  next
    case False
    then have "\<lfloor>x\<rfloor> + 1 \<le> \<lfloor>y\<rfloor>" using m by simp
    moreover have "roundTiesToEven x \<le> \<lfloor>x\<rfloor> + 1" by (simp add: roundTiesToEven_def Let_def)
    moreover have "\<lfloor>y\<rfloor> \<le> roundTiesToEven y" by (simp add: roundTiesToEven_def Let_def)
    ultimately show ?thesis by linarith
  qed
qed

lemma roundTiesToEven_of_int: "roundTiesToEven (rat_of_int k) = k"
  by (simp add: roundTiesToEven_def)

text \<open>The result is within half a unit in the last place of the argument.\<close>

lemma float32_error:
  "\<bar>float32 x - x\<bar> \<le> pow2 (max (floorLog2 \<bar>x\<bar>) (- 126) - 24)"
proof (cases "x = 0")
  case True
  then show ?thesis using pow2_pos [of "max (floorLog2 \<bar>x\<bar>) (- 126) - 24"]
    by (simp add: float32_def less_imp_le)
next
  case False
  define u where "u = pow2 (max (floorLog2 \<bar>x\<bar>) (- 126) - 23)"
  have u: "0 < u" by (simp add: u_def pow2_pos)
  have f: "float32 x = rat_of_int (roundTiesToEven (x / u)) * u"
    using False by (simp add: float32_def Let_def u_def)
  have "float32 x - x = (rat_of_int (roundTiesToEven (x / u)) - x / u) * u"
    using u by (simp add: f field_simps)
  then have "\<bar>float32 x - x\<bar> = \<bar>rat_of_int (roundTiesToEven (x / u)) - x / u\<bar> * u"
    using u by (simp only: abs_mult)
  also have "\<dots> \<le> (1 / 2) * u"
    using roundTiesToEven_error [of "x / u"] u by (simp add: mult_le_cancel_right_pos)
  also have "\<dots> = pow2 (max (floorLog2 \<bar>x\<bar>) (- 126) - 24)"
  proof -
    have "pow2 (max (floorLog2 \<bar>x\<bar>) (- 126) - 24) * pow2 1 = u"
      unfolding u_def by (simp add: pow2_add [symmetric])
    then show ?thesis by (simp add: pow2_def)
  qed
  finally show ?thesis .
qed

text \<open>In the normal range the relative error is at most \<open>2 ^ - 24\<close>.\<close>

lemma float32_relative_error:
  assumes "pow2 (- 126) \<le> \<bar>x\<bar>"
  shows "\<bar>float32 x - x\<bar> \<le> \<bar>x\<bar> / 2 ^ 24"
proof -
  have x: "0 < \<bar>x\<bar>" using assms pow2_pos [of "- 126"] by linarith
  have b: "pow2 (floorLog2 \<bar>x\<bar>) \<le> \<bar>x\<bar>" "\<bar>x\<bar> < pow2 (floorLog2 \<bar>x\<bar> + 1)"
    using floorLog2_bounds [OF x] by simp_all
  have "- 126 \<le> floorLog2 \<bar>x\<bar>"
  proof (rule ccontr)
    assume "\<not> - 126 \<le> floorLog2 \<bar>x\<bar>"
    then have "floorLog2 \<bar>x\<bar> + 1 \<le> - 126" by simp
    then have "pow2 (floorLog2 \<bar>x\<bar> + 1) \<le> pow2 (- 126)" by (rule pow2_mono)
    then show False using b(2) assms by linarith
  qed
  then have m: "max (floorLog2 \<bar>x\<bar>) (- 126) = floorLog2 \<bar>x\<bar>" by simp
  have "\<bar>float32 x - x\<bar> \<le> pow2 (floorLog2 \<bar>x\<bar> - 24)"
    using float32_error [of x] by (simp add: m)
  also have "\<dots> = pow2 (floorLog2 \<bar>x\<bar>) / 2 ^ 24"
    by (simp add: pow2_diff pow2_nat)
  also have "\<dots> \<le> \<bar>x\<bar> / 2 ^ 24"
    using b(1) by (simp add: divide_right_mono)
  finally show ?thesis .
qed

text \<open>The result lies on the grid of the argument's exponent, with at most 24 bits.\<close>

lemma float32_grid:
  assumes "x \<noteq> 0"
  shows "\<exists>m. float32 x = rat_of_int m * pow2 (max (floorLog2 \<bar>x\<bar>) (- 126) - 23)
           \<and> \<bar>m\<bar> \<le> 2 ^ 24"
proof -
  define e where "e = max (floorLog2 \<bar>x\<bar>) (- 126)"
  define u where "u = pow2 (e - 23)"
  have u: "0 < u" by (simp add: u_def pow2_pos)
  have x: "0 < \<bar>x\<bar>" using assms by simp
  have "\<bar>x\<bar> < pow2 (floorLog2 \<bar>x\<bar> + 1)" using floorLog2_bounds [OF x] by simp
  also have "\<dots> \<le> pow2 (e + 1)" by (rule pow2_mono) (simp add: e_def)
  also have "\<dots> = 2 ^ 24 * u" by (simp add: u_def pow2_diff pow2_add pow2_nat)
  finally have "\<bar>x / u\<bar> \<le> 2 ^ 24" using u by (simp add: abs_mult field_simps)
  then have r: "- (2 ^ 24) \<le> x / u" "x / u \<le> 2 ^ 24" by (simp_all only: abs_le_iff) linarith+
  have "roundTiesToEven (x / u) \<le> roundTiesToEven (rat_of_int (2 ^ 24))"
    using r(2) by (intro roundTiesToEven_mono) simp
  moreover have "roundTiesToEven (rat_of_int (- (2 ^ 24))) \<le> roundTiesToEven (x / u)"
    using r(1) by (intro roundTiesToEven_mono) simp
  ultimately have "\<bar>roundTiesToEven (x / u)\<bar> \<le> 2 ^ 24"
    by (simp only: roundTiesToEven_of_int abs_le_iff) (simp; linarith)
  moreover have "float32 x = rat_of_int (roundTiesToEven (x / u)) * u"
    using assms by (simp add: float32_def Let_def u_def e_def)
  ultimately show ?thesis unfolding u_def e_def by blast
qed

section \<open>Destination sample counts on the two paths\<close>

lemma round_quotient:
  assumes "0 < b"
  shows "round (rat_of_int p / rat_of_int b) = (2 * p + b) div (2 * b)"
proof -
  have "rat_of_int p / rat_of_int b + 1 / 2 = rat_of_int (2 * p + b) / rat_of_int (2 * b)"
    using assms by (simp add: field_simps)
  then show ?thesis
    unfolding round_def by (simp only: floor_divide_of_int_eq)
qed

lemma div_round_split:
  assumes "0 < (b :: int)"
  shows "(2 * p + b) div (2 * b) = p div b + (if b \<le> 2 * (p mod b) then 1 else 0)"
proof -
  define q where "q = p div b"
  define m where "m = p mod b"
  have p: "p = b * q + m" and m: "0 \<le> m" "m < b"
    using assms by (simp_all add: q_def m_def)
  have e: "2 * p + b = (2 * b) * q + (2 * m + b)" by (simp add: p algebra_simps)
  show ?thesis
  proof (cases "b \<le> 2 * m")
    case True
    have e': "2 * p + b = (2 * m - b) + (q + 1) * (2 * b)" by (simp add: p algebra_simps)
    have "0 \<le> 2 * m - b" "2 * m - b < 2 * b" using True m by simp_all
    then have "(2 * p + b) div (2 * b) = q + 1"
      using assms unfolding e' by (simp only: div_mult_self1) (simp add: div_pos_pos_trivial)
    then show ?thesis using True by (simp add: q_def m_def)
  next
    case False
    have e': "2 * p + b = (2 * m + b) + q * (2 * b)" by (simp add: p algebra_simps)
    have "0 \<le> 2 * m + b" "2 * m + b < 2 * b" using False m by simp_all
    then have "(2 * p + b) div (2 * b) = q"
      using assms unfolding e' by (simp only: div_mult_self1) (simp add: div_pos_pos_trivial)
    then show ?thesis using False by (simp add: q_def m_def)
  qed
qed

lemma fitsInt_between: "0 \<le> x \<Longrightarrow> x \<le> y \<Longrightarrow> fitsInt y \<Longrightarrow> fitsInt x"
  by (simp add: fitsInt_def)

lemma roundedDestinationSamples_div:
  assumes "0 < sampleRate src * channelCount src"
  shows "roundedDestinationSamples src dst n
       = (2 * (n * (sampleRate dst * channelCount dst)) + sampleRate src * channelCount src)
           div (2 * (sampleRate src * channelCount src))"
proof -
  have "rat_of_int n * (rat_of_int (sampleRate dst) / rat_of_int (sampleRate src))
          * (rat_of_int (channelCount dst) / rat_of_int (channelCount src))
        = rat_of_int (n * (sampleRate dst * channelCount dst))
            / rat_of_int (sampleRate src * channelCount src)"
    by simp
  then have "roundedDestinationSamples src dst n
       = round (rat_of_int (n * (sampleRate dst * channelCount dst))
            / rat_of_int (sampleRate src * channelCount src))"
    by (simp only: roundedDestinationSamples_def)
  then show ?thesis using assms by (simp only: round_quotient)
qed

text \<open>
  The render path for every input: for a buffer of \<open>n\<close> network samples and positive
  rates and channel counts whose products fit in an \<^verbatim>\<open>int\<close>, the destination count of
  \<^verbatim>\<open>processReceivedSamples\<close> is the truncated quotient
  \<open>n * (dstRate * dstChannels) div (srcRate * srcChannels)\<close>; the rounded value is that
  quotient when twice the remainder is below the divisor, and one more otherwise.
\<close>

lemma numDeviceOutputSamples_truncates:
  assumes "0 \<le> inputBufferSize"
    and "0 < sampleRate (outputFormat s)" and "0 < channelCount (outputFormat s)"
    and "0 < sampleRate (desiredOutputFormat s)" and "0 < channelCount (desiredOutputFormat s)"
    and "fitsInt (sampleRate (outputFormat s) * channelCount (outputFormat s))"
    and "fitsInt (sampleRate (desiredOutputFormat s) * channelCount (desiredOutputFormat s))"
    and "fitsInt (inputBufferSize div 2
            * (sampleRate (outputFormat s) * channelCount (outputFormat s)))"
  shows "numDeviceOutputSamples s inputBufferSize
       = Some ((inputBufferSize div 2
                  * (sampleRate (outputFormat s) * channelCount (outputFormat s)))
               div (sampleRate (desiredOutputFormat s) * channelCount (desiredOutputFormat s)))
     \<and> roundedDestinationSamples (desiredOutputFormat s) (outputFormat s) (inputBufferSize div 2)
       = (inputBufferSize div 2
                  * (sampleRate (outputFormat s) * channelCount (outputFormat s)))
               div (sampleRate (desiredOutputFormat s) * channelCount (desiredOutputFormat s))
         + (if sampleRate (desiredOutputFormat s) * channelCount (desiredOutputFormat s)
                 \<le> 2 * ((inputBufferSize div 2
                            * (sampleRate (outputFormat s) * channelCount (outputFormat s)))
                          mod (sampleRate (desiredOutputFormat s)
                                 * channelCount (desiredOutputFormat s)))
            then 1 else 0)"
proof -
  define n where "n = inputBufferSize div 2"
  define a where "a = sampleRate (outputFormat s) * channelCount (outputFormat s)"
  define b where "b = sampleRate (desiredOutputFormat s) * channelCount (desiredOutputFormat s)"
  have n0: "0 \<le> n" using assms(1) by (simp add: n_def)
  have a0: "0 < a" using assms(2,3) by (simp add: a_def)
  have b0: "0 < b" using assms(4,5) by (simp add: b_def)
  have na0: "0 \<le> n * a" using n0 a0 by simp
  have "n \<le> n * a" using n0 a0 by (simp add: mult_le_cancel_left1)
  then have fn: "fitsInt n" using n0 assms(8) by (auto intro: fitsInt_between simp: n_def a_def)
  have sd: "(n * a) sdiv b = (n * a) div b"
    using na0 b0 by (simp add: signed_divide_int_def sgn_if)
  have "(n * a) div b \<le> n * a"
    using na0 b0 zdiv_mono2 [of "n * a" 1 b] by simp
  moreover have "0 \<le> (n * a) div b" using na0 b0 by (simp add: pos_imp_zdiv_nonneg_iff)
  ultimately have fq: "fitsInt ((n * a) div b)"
    using assms(8) by (auto intro: fitsInt_between simp: n_def a_def)
  have 1: "numDeviceOutputSamples s inputBufferSize = Some ((n * a) div b)"
    using assms(1,4,5,6,7,8) fn fq sd
    by (simp add: numDeviceOutputSamples_def Let_def n_def a_def b_def)
  have "roundedDestinationSamples (desiredOutputFormat s) (outputFormat s) n
       = (2 * (n * a) + b) div (2 * b)"
    using b0 unfolding a_def b_def by (rule roundedDestinationSamples_div)
  also have "\<dots> = (n * a) div b + (if b \<le> 2 * ((n * a) mod b) then 1 else 0)"
    using b0 by (simp only: div_round_split)
  finally show ?thesis
    using 1 by (simp only: n_def a_def b_def)
qed

lemma numDeviceOutputSamples_example:
  "numDeviceOutputSamples (run exampleEnv [Start]) 960 = Some 882
   \<and> roundedDestinationSamples (desiredOutputFormat (run exampleEnv [Start]))
        (outputFormat (run exampleEnv [Start])) 480 = 882"
proof -
  have f: "sampleRate (outputFormat (run exampleEnv [Start])) = 44100"
    "channelCount (outputFormat (run exampleEnv [Start])) = 2"
    "sampleRate (desiredOutputFormat (run exampleEnv [Start])) = 24000"
    "channelCount (desiredOutputFormat (run exampleEnv [Start])) = 2"
    by code_simp+
  show ?thesis
    using numDeviceOutputSamples_truncates [of 960 "run exampleEnv [Start]"]
    by (simp add: f fitsInt_def)
qed

text \<open>
  C3 asks that the destination count requested of the resample call is
  round(srcSamples * dstRate/srcRate * dstChannels/srcChannels) on the loopback path and
  on the render path. The loopback path rounds through
  \<^verbatim>\<open>numDestinationSamplesRequired\<close>; the render path divides integers and truncates.
  After \<^verbatim>\<open>start()\<close> on a 44.1 kHz stereo output device, a buffer of 512 network samples
  (24 kHz stereo) is given 940 destination samples by \<^verbatim>\<open>processReceivedSamples\<close>, where
  rounding 940.8 gives 941 and the helper, on the same formats and count, returns 941.
  The helper itself rounds in single precision: on the loopback path from a 44.1 kHz mono
  input to a 48 kHz stereo output, 19469 captured samples are given 42382 destination
  samples, where the exact value 42381.497 rounds to 42381.
\<close>

theorem destination_samples_diverge:
  "numDeviceOutputSamples (run exampleEnv [Start]) 1024 = Some 940
   \<and> roundedDestinationSamples (desiredOutputFormat (run exampleEnv [Start]))
        (outputFormat (run exampleEnv [Start])) 512 = 941
   \<and> numDestinationSamplesRequired (desiredOutputFormat (run exampleEnv [Start]))
        (outputFormat (run exampleEnv [Start])) 512 = Some 941
   \<and> loopbackNumDestinationSamples
        (run exampleEnv [Start, SwitchInputToAudioDevice (fixedRateDevice 44100),
                         SwitchOutputToAudioDevice (fixedRateDevice 48000)]) 38938
       = Some 42382
   \<and> roundedDestinationSamples
        (inputFormat (run exampleEnv [Start, SwitchInputToAudioDevice (fixedRateDevice 44100),
                         SwitchOutputToAudioDevice (fixedRateDevice 48000)]))
        (outputFormat (run exampleEnv [Start, SwitchInputToAudioDevice (fixedRateDevice 44100),
                         SwitchOutputToAudioDevice (fixedRateDevice 48000)])) 19469
       = 42381"
  by code_simp

lemma loopback_example:
  "loopbackNumDestinationSamples (run exampleEnv [Start]) 1024 = Some 941
   \<and> roundedDestinationSamples (inputFormat (run exampleEnv [Start]))
        (outputFormat (run exampleEnv [Start])) 512 = 941"
  by code_simp

section \<open>Format negotiation\<close>

text \<open>
  C4, as the code has it: \<^verbatim>\<open>adjustedFormatForAudioDevice\<close> returns \<open>False\<close> only when
  no adjustment occurred: the device does not support the desired format, the fallback
  from mono to stereo does not apply and the sample-rate preference leaves the format
  unchanged; the out-parameter then holds the desired format. Whenever the chosen format
  or the preferred candidate differs from the desired format, and whenever the device
  supports the desired format or its stereo variant, it returns \<open>True\<close>. The device's
  nearest format is the result only on the path where the preference changed the format,
  and is not queried otherwise. The function is total: the flag is the only failure
  signal.
\<close>

theorem negotiation_fails_only_without_change:
  assumes "adjustedFormatForAudioDevice env audioDevice desired = (ok, chosen)"
  shows "(\<not> ok \<longrightarrow> chosen = desired \<and> preferredSampleRate env audioDevice desired = desired
            \<and> \<not> isFormatSupported audioDevice desired
            \<and> \<not> (channelCount desired = 1
                   \<and> isFormatSupported audioDevice (desired\<lparr>channelCount := 2\<rparr>)))
       \<and> (chosen \<noteq> desired \<longrightarrow> ok)
       \<and> (preferredSampleRate env audioDevice desired \<noteq> desired \<longrightarrow> ok)
       \<and> (isFormatSupported audioDevice desired \<longrightarrow> ok \<and> chosen = desired)
       \<and> (\<not> isFormatSupported audioDevice desired
            \<and> channelCount desired = 1
            \<and> isFormatSupported audioDevice (desired\<lparr>channelCount := 2\<rparr>)
            \<longrightarrow> ok \<and> chosen = desired\<lparr>channelCount := 2\<rparr>)
       \<and> (\<not> isFormatSupported audioDevice desired
            \<and> \<not> (channelCount desired = 1
                   \<and> isFormatSupported audioDevice (desired\<lparr>channelCount := 2\<rparr>))
            \<and> preferredSampleRate env audioDevice desired \<noteq> desired
            \<longrightarrow> ok \<and> chosen = nearestFormat audioDevice (preferredSampleRate env audioDevice desired))"
  using assms
  by (auto simp: adjustedFormatForAudioDevice_def Let_def split: if_splits)

lemma negotiation_example_fails: "adjustedFormatForAudioDevice exampleEnv (fixedRateDevice 32000)
     \<lparr>sampleRate = 24000, channelCount = 1, sampleSize = 16,
             codec = ''audio/pcm'', byteOrder = LittleEndian, sampleType = SignedInt\<rparr>
   = (False, \<lparr>sampleRate = 24000, channelCount = 1, sampleSize = 16,
             codec = ''audio/pcm'', byteOrder = LittleEndian, sampleType = SignedInt\<rparr>)"
  by (simp add: adjustedFormatForAudioDevice_def preferredSampleRate_def exampleEnv_def fixedRateDevice_def)

lemma negotiation_example_adjusts: "adjustedFormatForAudioDevice exampleEnv (fixedRateDevice 48000)
     \<lparr>sampleRate = 24000, channelCount = 1, sampleSize = 16,
             codec = ''audio/pcm'', byteOrder = LittleEndian, sampleType = SignedInt\<rparr>
   = (True, \<lparr>sampleRate = 48000, channelCount = 1, sampleSize = 16,
             codec = ''audio/pcm'', byteOrder = LittleEndian, sampleType = SignedInt\<rparr>)"
  by (simp add: adjustedFormatForAudioDevice_def preferredSampleRate_def exampleEnv_def fixedRateDevice_def)

theorem negotiation_fails_only_without_change_witness:
  "adjustedFormatForAudioDevice exampleEnv (fixedRateDevice 32000)
     \<lparr>sampleRate = 24000, channelCount = 1, sampleSize = 16,
             codec = ''audio/pcm'', byteOrder = LittleEndian, sampleType = SignedInt\<rparr>
   = (False, \<lparr>sampleRate = 24000, channelCount = 1, sampleSize = 16,
             codec = ''audio/pcm'', byteOrder = LittleEndian, sampleType = SignedInt\<rparr>)
   \<and> preferredSampleRate exampleEnv (fixedRateDevice 32000)
     \<lparr>sampleRate = 24000, channelCount = 1, sampleSize = 16,
             codec = ''audio/pcm'', byteOrder = LittleEndian, sampleType = SignedInt\<rparr>
      = \<lparr>sampleRate = 24000, channelCount = 1, sampleSize = 16,
             codec = ''audio/pcm'', byteOrder = LittleEndian, sampleType = SignedInt\<rparr>
   \<and> adjustedFormatForAudioDevice exampleEnv (fixedRateDevice 48000)
     \<lparr>sampleRate = 24000, channelCount = 1, sampleSize = 16,
             codec = ''audio/pcm'', byteOrder = LittleEndian, sampleType = SignedInt\<rparr>
   = (True, nearestFormat (fixedRateDevice 48000)
       (preferredSampleRate exampleEnv (fixedRateDevice 48000)
         \<lparr>sampleRate = 24000, channelCount = 1, sampleSize = 16,
             codec = ''audio/pcm'', byteOrder = LittleEndian, sampleType = SignedInt\<rparr>))"
  using negotiation_fails_only_without_change [OF negotiation_example_fails]
    negotiation_fails_only_without_change [OF negotiation_example_adjusts]
    negotiation_example_fails negotiation_example_adjusts
  by (simp add: fixedRateDevice_def preferredSampleRate_def exampleEnv_def)

text \<open>
  The specification ties the failure to the device's nearest format being the desired
  format. A device that supports only 32 kHz has a supported nearest format different
  from the desired 24 kHz mono format, and the negotiation fails without querying it.
\<close>

theorem negotiation_nearest_format_counterexample:
  "fst (adjustedFormatForAudioDevice exampleEnv (fixedRateDevice 32000)
     \<lparr>sampleRate = 24000, channelCount = 1, sampleSize = 16,
             codec = ''audio/pcm'', byteOrder = LittleEndian, sampleType = SignedInt\<rparr>) = False
   \<and> nearestFormat (fixedRateDevice 32000)
     \<lparr>sampleRate = 24000, channelCount = 1, sampleSize = 16,
             codec = ''audio/pcm'', byteOrder = LittleEndian, sampleType = SignedInt\<rparr>
     \<noteq> \<lparr>sampleRate = 24000, channelCount = 1, sampleSize = 16,
             codec = ''audio/pcm'', byteOrder = LittleEndian, sampleType = SignedInt\<rparr>
   \<and> isFormatSupported (fixedRateDevice 32000)
       (nearestFormat (fixedRateDevice 32000)
         \<lparr>sampleRate = 24000, channelCount = 1, sampleSize = 16,
             codec = ''audio/pcm'', byteOrder = LittleEndian, sampleType = SignedInt\<rparr>)"
  by (simp add: adjustedFormatForAudioDevice_def preferredSampleRate_def exampleEnv_def fixedRateDevice_def)

section \<open>Starvation detection\<close>

lemma switchOutput_starve:
  "outputStarveDetectionStartTimeMsec (snd (switchOutputToAudioDevice env d s)) = outputStarveDetectionStartTimeMsec s
   \<and> outputStarveDetectionCount (snd (switchOutputToAudioDevice env d s)) = outputStarveDetectionCount s
   \<and> outputBufferSizeFrames (snd (switchOutputToAudioDevice env d s)) = outputBufferSizeFrames s
   \<and> outputStarveDetectionEnabled (snd (switchOutputToAudioDevice env d s)) = outputStarveDetectionEnabled s
   \<and> outputStarveDetectionPeriodMsec (snd (switchOutputToAudioDevice env d s)) = outputStarveDetectionPeriodMsec s
   \<and> outputStarveDetectionThreshold (snd (switchOutputToAudioDevice env d s)) = outputStarveDetectionThreshold s"
  by (simp add: switchOutputToAudioDevice_def outputFormatChanged_def Let_def split: prod.split)

lemma setOutputBufferSize_starve:
  "outputBufferSizeFrames (setOutputBufferSize env n s)
     = min (max n (MIN_AUDIO_OUTPUT_BUFFER_SIZE_FRAMES env)) (MAX_AUDIO_OUTPUT_BUFFER_SIZE_FRAMES env)
   \<and> outputStarveDetectionStartTimeMsec (setOutputBufferSize env n s) = outputStarveDetectionStartTimeMsec s
   \<and> outputStarveDetectionCount (setOutputBufferSize env n s) = outputStarveDetectionCount s
   \<and> outputStarveDetectionEnabled (setOutputBufferSize env n s) = outputStarveDetectionEnabled s
   \<and> outputStarveDetectionPeriodMsec (setOutputBufferSize env n s) = outputStarveDetectionPeriodMsec s
   \<and> outputStarveDetectionThreshold (setOutputBufferSize env n s) = outputStarveDetectionThreshold s"
  by (simp add: setOutputBufferSize_def Let_def switchOutput_starve)

lemma outputNotify_size:
  "outputBufferSizeFrames (outputNotify env n now s)
     = (if starveThresholdMet s n now
        then min (max (outputBufferSizeFrames s + 1) (MIN_AUDIO_OUTPUT_BUFFER_SIZE_FRAMES env))
                 (MAX_AUDIO_OUTPUT_BUFFER_SIZE_FRAMES env)
        else outputBufferSizeFrames s)"
  by (simp add: outputNotify_def starveThresholdMet_def Let_def setOutputBufferSize_starve)

lemma outputNotify_window:
  "outputStarveDetectionStartTimeMsec (outputNotify env n now s)
     = (if starveWindowExpired s n now \<or> starveThresholdMet s n now then now
        else outputStarveDetectionStartTimeMsec s)
   \<and> outputStarveDetectionCount (outputNotify env n now s)
     = (if starveWindowExpired s n now \<or> starveThresholdMet s n now then 0
        else if n > 0 \<and> outputStarveDetectionEnabled s then outputStarveDetectionCount s + n
        else outputStarveDetectionCount s)"
  by (simp add: outputNotify_def starveThresholdMet_def starveWindowExpired_def Let_def setOutputBufferSize_starve)

lemma outputNotify_settings:
  "outputStarveDetectionEnabled (outputNotify env n now s) = outputStarveDetectionEnabled s
   \<and> outputStarveDetectionPeriodMsec (outputNotify env n now s) = outputStarveDetectionPeriodMsec s
   \<and> outputStarveDetectionThreshold (outputNotify env n now s) = outputStarveDetectionThreshold s"
  by (simp add: outputNotify_def Let_def setOutputBufferSize_starve)

lemma outputNotify_range:
  assumes "MIN_AUDIO_OUTPUT_BUFFER_SIZE_FRAMES env \<le> MAX_AUDIO_OUTPUT_BUFFER_SIZE_FRAMES env"
    and "MIN_AUDIO_OUTPUT_BUFFER_SIZE_FRAMES env \<le> outputBufferSizeFrames s"
    and "outputBufferSizeFrames s \<le> MAX_AUDIO_OUTPUT_BUFFER_SIZE_FRAMES env"
  shows "MIN_AUDIO_OUTPUT_BUFFER_SIZE_FRAMES env \<le> outputBufferSizeFrames (outputNotify env n now s)
    \<and> outputBufferSizeFrames (outputNotify env n now s) \<le> MAX_AUDIO_OUTPUT_BUFFER_SIZE_FRAMES env"
  using assms by (simp add: outputNotify_size)

lemma outputNotifies_range:
  assumes "MIN_AUDIO_OUTPUT_BUFFER_SIZE_FRAMES env \<le> MAX_AUDIO_OUTPUT_BUFFER_SIZE_FRAMES env"
  shows "MIN_AUDIO_OUTPUT_BUFFER_SIZE_FRAMES env \<le> outputBufferSizeFrames s \<Longrightarrow>
    outputBufferSizeFrames s \<le> MAX_AUDIO_OUTPUT_BUFFER_SIZE_FRAMES env \<Longrightarrow>
    MIN_AUDIO_OUTPUT_BUFFER_SIZE_FRAMES env \<le> outputBufferSizeFrames (outputNotifies env s ticks)
    \<and> outputBufferSizeFrames (outputNotifies env s ticks) \<le> MAX_AUDIO_OUTPUT_BUFFER_SIZE_FRAMES env"
proof (induction ticks arbitrary: s)
  case Nil
  then show ?case by (simp add: outputNotifies_def)
next
  case (Cons t ticks)
  obtain n now where t: "t = (n, now)" by (cases t)
  from outputNotify_range [OF assms Cons.prems, of n now]
  have "MIN_AUDIO_OUTPUT_BUFFER_SIZE_FRAMES env
          \<le> outputBufferSizeFrames (outputNotifies env (outputNotify env n now s) ticks)
    \<and> outputBufferSizeFrames (outputNotifies env (outputNotify env n now s) ticks)
          \<le> MAX_AUDIO_OUTPUT_BUFFER_SIZE_FRAMES env"
    by (intro Cons.IH) simp_all
  then show ?case by (simp add: outputNotifies_def t)
qed

text \<open>
  C5, as the code has it: with \<open>MIN \<le> MAX\<close> and a buffer size inside the range, a
  notification grows the buffer by exactly one frame when the threshold is crossed inside
  the window and the size is below \<open>MAX\<close>, and leaves the size unchanged otherwise
  (in particular at \<open>MAX\<close>); over any sequence of notifications the size stays
  between \<open>MIN\<close> and \<open>MAX\<close>. When the period has elapsed, and when the threshold is
  crossed, the window restarts: the counter becomes \<open>0\<close> and the start time becomes
  the current time. Otherwise a positive reading is added to the counter.
\<close>

theorem starvation_buffer_growth:
  assumes "MIN_AUDIO_OUTPUT_BUFFER_SIZE_FRAMES env \<le> MAX_AUDIO_OUTPUT_BUFFER_SIZE_FRAMES env"
    and "MIN_AUDIO_OUTPUT_BUFFER_SIZE_FRAMES env \<le> outputBufferSizeFrames s"
    and "outputBufferSizeFrames s \<le> MAX_AUDIO_OUTPUT_BUFFER_SIZE_FRAMES env"
  shows "outputBufferSizeFrames (outputNotify env n now s)
       = (if starveThresholdMet s n now
             \<and> outputBufferSizeFrames s < MAX_AUDIO_OUTPUT_BUFFER_SIZE_FRAMES env
          then outputBufferSizeFrames s + 1 else outputBufferSizeFrames s)
     \<and> MIN_AUDIO_OUTPUT_BUFFER_SIZE_FRAMES env \<le> outputBufferSizeFrames (outputNotifies env s ticks)
     \<and> outputBufferSizeFrames (outputNotifies env s ticks) \<le> MAX_AUDIO_OUTPUT_BUFFER_SIZE_FRAMES env
     \<and> outputStarveDetectionCount (outputNotify env n now s)
       = (if starveWindowExpired s n now \<or> starveThresholdMet s n now then 0
          else if n > 0 \<and> outputStarveDetectionEnabled s then outputStarveDetectionCount s + n
          else outputStarveDetectionCount s)
     \<and> outputStarveDetectionStartTimeMsec (outputNotify env n now s)
       = (if starveWindowExpired s n now \<or> starveThresholdMet s n now then now
          else outputStarveDetectionStartTimeMsec s)"
  using assms outputNotifies_range [OF assms, of ticks]
  by (simp add: outputNotify_size outputNotify_window)

theorem starvation_buffer_growth_witness:
  "outputBufferSizeFrames (outputNotify exampleEnv 4 5 (AudioClient_new exampleEnv)) = 11
   \<and> outputBufferSizeFrames (outputNotifies exampleEnv (AudioClient_new exampleEnv) [(4, 5), (1, 6), (5, 7)]) \<le> 20"
proof -
  have g: "MAX_AUDIO_OUTPUT_BUFFER_SIZE_FRAMES exampleEnv = 20" "MIN_AUDIO_OUTPUT_BUFFER_SIZE_FRAMES exampleEnv = 1"
    "outputBufferSizeFrames (AudioClient_new exampleEnv) = 10"
    by (simp_all add: exampleEnv_def AudioClient_new_def)
  have c: "starveThresholdMet (AudioClient_new exampleEnv) 4 5"
    by (simp add: starveThresholdMet_def AudioClient_new_def exampleEnv_def)
  show ?thesis
    using starvation_buffer_growth [of exampleEnv "AudioClient_new exampleEnv" 4 5 "[(4, 5), (1, 6), (5, 7)]"]
    by (simp add: g c)
qed

text \<open>
  The specification asks for one more frame at every threshold crossing and for a
  counter restarted at the current reading. At the maximum of 20 frames a crossing leaves
  the size at 20, and an expired window restarts the counter at \<open>0\<close>, dropping the
  reading of 2.
\<close>

theorem starvation_counterexample:
  "outputBufferSizeFrames (run exampleEnv [SetOutputBufferSize 20]) = 20
   \<and> starveThresholdMet (run exampleEnv [SetOutputBufferSize 20]) 4 5
   \<and> outputBufferSizeFrames (run exampleEnv [SetOutputBufferSize 20, OutputNotify 4 5]) \<noteq> 20 + 1
   \<and> starveWindowExpired (run exampleEnv []) 2 20000
   \<and> outputStarveDetectionCount (run exampleEnv [OutputNotify 2 20000]) \<noteq> 2"
proof -
  have a: "run exampleEnv [SetOutputBufferSize 20] = (AudioClient_new exampleEnv)\<lparr>outputBufferSizeFrames := 20\<rparr>"
    by (simp add: run_def setOutputBufferSize_def AudioClient_new_def exampleEnv_def)
  have b: "run exampleEnv [SetOutputBufferSize 20, OutputNotify 4 5]
     = outputNotify exampleEnv 4 5 (run exampleEnv [SetOutputBufferSize 20])"
    by (simp add: run_def)
  have c: "starveThresholdMet ((AudioClient_new exampleEnv)\<lparr>outputBufferSizeFrames := 20\<rparr>) 4 5"
    by (simp add: starveThresholdMet_def AudioClient_new_def exampleEnv_def)
  have d: "starveWindowExpired (AudioClient_new exampleEnv) 2 20000"
    by (simp add: starveWindowExpired_def AudioClient_new_def exampleEnv_def)
  have e: "run exampleEnv [OutputNotify 2 20000] = outputNotify exampleEnv 2 20000 (AudioClient_new exampleEnv)"
    by (simp add: run_def)
  have f: "run exampleEnv [] = AudioClient_new exampleEnv" by (simp add: run_def)
  have g: "MAX_AUDIO_OUTPUT_BUFFER_SIZE_FRAMES exampleEnv = 20" "MIN_AUDIO_OUTPUT_BUFFER_SIZE_FRAMES exampleEnv = 1"
    by (simp_all add: exampleEnv_def)
  show ?thesis
    unfolding b e f unfolding a
    by (simp add: outputNotify_size outputNotify_window c d g)
qed

section \<open>The clip timer\<close>










lemma example_frame_duration:
  "networkFrameDurationSeconds exampleEnv = 4 / 375
   \<and> networkFrameDuration32 exampleEnv = 5726623 / 536870912"
  by code_simp




section \<open>Reads of the output device\<close>

lemma int16_bytes_roundtrip:
  "or (ucast (ucast x :: byte)) (push_bit 8 (ucast (ucast (drop_bit 8 x) :: byte))) = (x :: int16)"
  by (rule bit_word_eqI) (auto simp: bit_simps)

lemma bytes_int16s_concat: "bytes_int16s (concat (map int16_bytes xs) @ []) = xs"
  by (induction xs) (simp_all add: int16_bytes_def int16_bytes_roundtrip)

lemma length_concat_int16_bytes: "length (concat (map int16_bytes xs)) = 2 * length xs"
  by (induction xs) (simp_all add: int16_bytes_def)

text \<open>
  C7: a read of \<open>maxSize\<close> bytes into a buffer that holds them, from a jitter buffer
  that pops at most the samples requested, always returns. If samples were popped, the
  bytes written are exactly those samples, two bytes each, and their byte count, which
  does not exceed \<open>maxSize\<close>, is returned; if none were popped, the first
  \<open>maxSize\<close> bytes are zero and \<open>maxSize\<close> is returned. The rest of the buffer is
  untouched.
\<close>

theorem readData_contract:
  assumes "0 \<le> maxSize" and "nat maxSize \<le> length data"
    and "length (popSamples (maxSize div 2)) \<le> nat (maxSize div 2)"
  shows "\<exists>data' bytesWritten s'.
       readData popSamples bytesAudioOutputUnplayed data maxSize s = Some (data', bytesWritten, s')
     \<and> length data' = length data
     \<and> drop (nat bytesWritten) data' = drop (nat bytesWritten) data
     \<and> (if popSamples (maxSize div 2) \<noteq> []
         then bytesWritten = 2 * int (length (popSamples (maxSize div 2)))
              \<and> bytesWritten \<le> maxSize
              \<and> bytes_int16s (take (nat bytesWritten) data') = popSamples (maxSize div 2)
         else bytesWritten = maxSize
              \<and> take (nat maxSize) data' = replicate (nat maxSize) 0)"
proof (cases "popSamples (maxSize div 2) = []")
  case True
  then show ?thesis
    using assms(1,2) by (simp add: readData_def Let_def)
next
  case False
  define popped where "popped = popSamples (maxSize div 2)"
  have l: "2 * length popped \<le> nat maxSize"
    using assms(1,3) unfolding popped_def by linarith
  then have l2: "2 * length popped \<le> length data" using assms(2) by linarith
  have "bytes_int16s (concat (map int16_bytes popped)) = popped"
    using bytes_int16s_concat [of popped] by simp
  moreover have "nat (int (length popped) * 2) = 2 * length popped" by simp
  moreover have "int (length popped) * 2 \<le> maxSize" using l assms(1) by (simp add: le_nat_iff)
  ultimately show ?thesis
    using False assms(1) l l2 unfolding popped_def [symmetric]
    by (simp add: readData_def Let_def popped_def [symmetric] length_concat_int16_bytes)
qed

theorem readData_contract_witness:
  "(\<exists>data' s'. readData (\<lambda>n. [258, - 2]) 0 (replicate 8 255) 8 (AudioClient_new exampleEnv)
        = Some (data', 4, s')
      \<and> bytes_int16s (take 4 data') = [258, - 2] \<and> drop 4 data' = replicate 4 255)
   \<and> (\<exists>data' s'. readData (\<lambda>n. []) 0 (replicate 8 255) 6 (AudioClient_new exampleEnv)
        = Some (data', 6, s')
      \<and> take 6 data' = replicate 6 0 \<and> drop 6 data' = replicate 2 255)"
  using readData_contract [of 8 "replicate 8 255" "\<lambda>n. [258, - 2]" 0 "AudioClient_new exampleEnv"]
    readData_contract [of 6 "replicate 8 255" "\<lambda>n. []" 0 "AudioClient_new exampleEnv"]
  by auto

text \<open>
  C8 asks that a read which pops no samples and substitutes silence increments
  \<open>unfulfilledReads\<close>. The code increments only when \<^verbatim>\<open>bytesWritten == 0\<close>, after the
  silence branch has set \<^verbatim>\<open>bytesWritten = maxSize\<close>: on an underrun of a positive size,
  even with nothing left unplayed in the output, the state is returned unchanged.
\<close>

theorem underrun_not_counted:
  assumes "0 < maxSize" and "nat maxSize \<le> length data" and "popSamples (maxSize div 2) = []"
  shows "readData popSamples 0 data maxSize s
       = Some (replicate (nat maxSize) 0 @ drop (nat maxSize) data, maxSize, s)"
  using assms by (simp add: readData_def Let_def)

theorem underrun_not_counted_witness:
  "unfulfilledReads (AudioClient_new exampleEnv) = 0
   \<and> readData (\<lambda>n. []) 0 (replicate 8 255) 8 (AudioClient_new exampleEnv)
       = Some (replicate 8 0, 8, AudioClient_new exampleEnv)"
  using underrun_not_counted [of 8 "replicate 8 255" "\<lambda>n. []" "AudioClient_new exampleEnv"]
  by (simp add: AudioClient_new_def)

section \<open>Resampler contexts\<close>

lemma switchInput_resampler:
  assumes "switchInputToAudioDevice env d s = (True, s')"
  shows "(inputToNetworkResampler s' \<noteq> None)
       = (sampleRate (inputFormat s') \<noteq> sampleRate (desiredInputFormat s'))"
  using assms
  by (auto simp: switchInputToAudioDevice_def Let_def split: prod.splits if_splits)

lemma switchOutput_resampler:
  assumes "switchOutputToAudioDevice env d s = (True, s')"
  shows "(networkToOutputResampler s' \<noteq> None)
       = (sampleRate (desiredOutputFormat s') \<noteq> sampleRate (outputFormat s'))"
  using assms
  by (auto simp: switchOutputToAudioDevice_def outputFormatChanged_def Let_def
      split: prod.splits if_splits)

lemma loopback_resampler_fresh:
  assumes "handleLocalEchoAndReverb env r s = (True, s')" and "loopbackResampler s = None"
  shows "(loopbackResampler s' \<noteq> None)
       = (sampleRate (inputFormat s') \<noteq> sampleRate (outputFormat s'))"
  using assms
  by (auto simp: handleLocalEchoAndReverb_def Let_def split: if_splits)

lemma switchInput_keeps_loopbackResampler:
  "loopbackResampler (snd (switchInputToAudioDevice env d s)) = loopbackResampler s"
  by (simp add: switchInputToAudioDevice_def Let_def split: prod.split)

lemma switchOutput_clears_loopbackResampler:
  "loopbackResampler (snd (switchOutputToAudioDevice env d s)) = None"
  by (simp add: switchOutputToAudioDevice_def outputFormatChanged_def Let_def split: prod.split)

text \<open>
  C9 asks that after a local-loopback setup the loopback resampler exists iff input and
  output formats differ in sample rate. \<^verbatim>\<open>switchOutputToAudioDevice\<close> deletes the
  loopback resampler, \<^verbatim>\<open>switchInputToAudioDevice\<close> does not: after \<^verbatim>\<open>start()\<close> with a
  48 kHz input and a 44.1 kHz output, a loopback pass creates a 48000 to 44100 context;
  after a switch of the input to a 44.1 kHz device the next loopback pass reaches its
  resampling call with that context still in place, although both rates are 44100.
\<close>

theorem stale_loopback_resampler:
  "fst (handleLocalEchoAndReverb exampleEnv True
          (run exampleEnv [Start, HandleLocalEchoAndReverb True,
                           SwitchInputToAudioDevice (fixedRateDevice 44100)]))
   \<and> loopbackResampler
        (run exampleEnv [Start, HandleLocalEchoAndReverb True,
                         SwitchInputToAudioDevice (fixedRateDevice 44100),
                         HandleLocalEchoAndReverb True])
       = Some \<lparr>inputRate = 48000, outputRate = 44100\<rparr>
   \<and> sampleRate (inputFormat
        (run exampleEnv [Start, HandleLocalEchoAndReverb True,
                         SwitchInputToAudioDevice (fixedRateDevice 44100),
                         HandleLocalEchoAndReverb True])) = 44100
   \<and> sampleRate (outputFormat
        (run exampleEnv [Start, HandleLocalEchoAndReverb True,
                         SwitchInputToAudioDevice (fixedRateDevice 44100),
                         HandleLocalEchoAndReverb True])) = 44100"
  by code_simp

theorem stale_loopback_resampler_witness:
  "loopbackResampler
        (run exampleEnv [Start, HandleLocalEchoAndReverb True,
                         SwitchInputToAudioDevice (fixedRateDevice 44100),
                         HandleLocalEchoAndReverb True]) \<noteq> None
   \<and> sampleRate (inputFormat
        (run exampleEnv [Start, HandleLocalEchoAndReverb True,
                         SwitchInputToAudioDevice (fixedRateDevice 44100),
                         HandleLocalEchoAndReverb True]))
     = sampleRate (outputFormat
        (run exampleEnv [Start, HandleLocalEchoAndReverb True,
                         SwitchInputToAudioDevice (fixedRateDevice 44100),
                         HandleLocalEchoAndReverb True]))"
  using stale_loopback_resampler by simp

section \<open>Synthetic sources\<close>

lemma switchInput_sources:
  "toneSourceEnabled (snd (switchInputToAudioDevice env d s)) = toneSourceEnabled s
   \<and> noiseSourceEnabled (snd (switchInputToAudioDevice env d s)) = noiseSourceEnabled s"
  by (simp add: switchInputToAudioDevice_def Let_def split: prod.split)

lemma switchOutput_sources:
  "toneSourceEnabled (snd (switchOutputToAudioDevice env d s)) = toneSourceEnabled s
   \<and> noiseSourceEnabled (snd (switchOutputToAudioDevice env d s)) = noiseSourceEnabled s"
  by (simp add: switchOutputToAudioDevice_def outputFormatChanged_def Let_def split: prod.split)

lemma setOutputBufferSize_sources:
  "toneSourceEnabled (setOutputBufferSize env n s) = toneSourceEnabled s
   \<and> noiseSourceEnabled (setOutputBufferSize env n s) = noiseSourceEnabled s"
  by (simp add: setOutputBufferSize_def Let_def switchOutput_sources)

lemma outputNotify_sources:
  "toneSourceEnabled (outputNotify env n t s) = toneSourceEnabled s
   \<and> noiseSourceEnabled (outputNotify env n t s) = noiseSourceEnabled s"
  by (simp add: outputNotify_def Let_def setOutputBufferSize_sources)

lemma handleLocalEchoAndReverb_sources:
  "toneSourceEnabled (snd (handleLocalEchoAndReverb env r s)) = toneSourceEnabled s
   \<and> noiseSourceEnabled (snd (handleLocalEchoAndReverb env r s)) = noiseSourceEnabled s"
  by (simp add: handleLocalEchoAndReverb_def Let_def)

lemma handleAudioInputFrame_sources:
  "toneSourceEnabled (fst (handleAudioInputFrame env x s)) = toneSourceEnabled s
   \<and> noiseSourceEnabled (fst (handleAudioInputFrame env x s)) = noiseSourceEnabled s"
  by (simp add: handleAudioInputFrame_def Let_def)

lemma readData_sources:
  "readData p u d m s = Some (d', n, s') \<Longrightarrow>
   toneSourceEnabled s' = toneSourceEnabled s \<and> noiseSourceEnabled s' = noiseSourceEnabled s"
  by (auto simp: readData_def Let_def split: if_splits option.splits)

lemma handleEvent_sources:
  assumes "toneSourceEnabled s = (\<not> noiseSourceEnabled s)"
  shows "toneSourceEnabled (handleEvent env s e) = (\<not> noiseSourceEnabled (handleEvent env s e))"
proof (cases e)
  case Start
  with assms show ?thesis
    by (simp add: start_def Let_def switchInput_sources switchOutput_sources)
next
  case Stop
  with assms show ?thesis
    by (simp add: stop_def Let_def switchInput_sources switchOutput_sources)
next
  case (SetIsStereoInput d b)
  with assms show ?thesis
    by (simp add: setIsStereoInput_def Let_def switchInput_sources)
next
  case (ReadData p u d m)
  with assms show ?thesis
    by (auto split: option.splits dest: readData_sources)
qed (use assms in \<open>simp_all add: switchInput_sources switchOutput_sources
      handleLocalEchoAndReverb_sources
      handleAudioInputFrame_sources outputNotify_sources setOutputBufferSize_sources
      audioMixerKilled_def toggleMute_def toggleAudioSourceInject_def
      selectAudioSourcePinkNoise_def selectAudioSourceSine440_def\<close>)

lemma foldl_handleEvent_sources:
  "toneSourceEnabled s = (\<not> noiseSourceEnabled s) \<Longrightarrow>
   toneSourceEnabled (foldl (handleEvent env) s es)
     = (\<not> noiseSourceEnabled (foldl (handleEvent env) s es))"
  by (induction es arbitrary: s) (simp_all add: handleEvent_sources)

text \<open>
  C10: the constructed state enables the tone source only, each of the two selections
  enables its own source and disables the other, and in every state that a run of calls
  reaches exactly one of the two flags is set, so that at most one generator is rendered
  when sources are injected.
\<close>

theorem sources_mutually_exclusive:
  "toneSourceEnabled (AudioClient_new env) \<and> \<not> noiseSourceEnabled (AudioClient_new env)
   \<and> \<not> toneSourceEnabled (selectAudioSourcePinkNoise s) \<and> noiseSourceEnabled (selectAudioSourcePinkNoise s)
   \<and> toneSourceEnabled (selectAudioSourceSine440 s) \<and> \<not> noiseSourceEnabled (selectAudioSourceSine440 s)
   \<and> \<not> (toneSourceEnabled (run env events) \<and> noiseSourceEnabled (run env events))
   \<and> length (renderedAudioSources (run env events)) \<le> 1"
proof -
  have "toneSourceEnabled (run env events) = (\<not> noiseSourceEnabled (run env events))"
    unfolding run_def by (rule foldl_handleEvent_sources) (simp add: AudioClient_new_def)
  then show ?thesis
    by (simp add: AudioClient_new_def selectAudioSourcePinkNoise_def selectAudioSourceSine440_def
        renderedAudioSources_def)
qed

end
